theory Spec2Isabelle
  imports Complex_Main "HOL-Library.Monad_Syntax" "HOL-Library.Sublist"
begin

section \<open>Python strings\<close>

text \<open>
  A Python \<open>str\<close> is a sequence of Unicode code points, so a string is a list of
  natural numbers (the BOM U+FEFF is one character, code point 65279).
  \<open>str\<close> turns an ASCII literal into such a string.
\<close>

type_synonym pystr = "nat list"

definition str :: "string \<Rightarrow> pystr" where
  "str s = map of_char s"

definition BOM :: nat where
  "BOM = 65279"

text \<open>\<open>s.startswith(p)\<close>.\<close>

fun startswith :: "pystr \<Rightarrow> pystr \<Rightarrow> bool" where
  "startswith s [] = True"
| "startswith [] (p # ps) = False"
| "startswith (c # s) (p # ps) = (c = p \<and> startswith s ps)"

text \<open>The rest of \<open>s\<close> behind the literal prefix \<open>p\<close>, when \<open>s\<close> starts with it.\<close>

fun after_prefix :: "pystr \<Rightarrow> pystr \<Rightarrow> pystr option" where
  "after_prefix [] s = Some s"
| "after_prefix (p # ps) [] = None"
| "after_prefix (p # ps) (c # s) = (if c = p then after_prefix ps s else None)"

text \<open>
  Whitespace as \<open>str.isspace\<close>, \<open>str.strip()\<close> and the regex class \<open>\s\<close> see it
  (on \<open>str\<close> patterns the three agree).
\<close>

definition is_space :: "nat \<Rightarrow> bool" where
  "is_space c \<longleftrightarrow> (9 \<le> c \<and> c \<le> 13) \<or> (28 \<le> c \<and> c \<le> 32) \<or> c = 133 \<or> c = 160
     \<or> c = 5760 \<or> (8192 \<le> c \<and> c \<le> 8202) \<or> c = 8232 \<or> c = 8233 \<or> c = 8239
     \<or> c = 8287 \<or> c = 12288"

text \<open>\<open>s.strip()\<close>: whitespace removed at both ends.\<close>

definition strip :: "pystr \<Rightarrow> pystr" where
  "strip s = rev (dropWhile is_space (rev (dropWhile is_space s)))"

text \<open>
  The regex class \<open>\d\<close> on a \<open>str\<close> pattern is the Unicode category Nd, and
  \<open>int()\<close> reads every such digit. The category is a union of runs of ten consecutive
  code points with the values 0 to 9; \<open>nd_starts\<close> lists where the runs begin
  (Unicode 14, the table of CPython 3.11).
\<close>

definition nd_starts :: "nat list" where
  "nd_starts = [48, 1632, 1776, 1984, 2406, 2534, 2662, 2790, 2918, 3046, 3174, 3302, 3430,
     3558, 3664, 3792, 3872, 4160, 4240, 6112, 6160, 6470, 6608, 6784, 6800, 6992, 7088, 7232,
     7248, 42528, 43216, 43264, 43472, 43504, 43600, 44016, 65296, 66720, 68912, 69734, 69872,
     69942, 70096, 70384, 70736, 70864, 71248, 71360, 71472, 71904, 72016, 72784, 73040, 73120,
     92768, 92864, 93008, 120782, 120792, 120802, 120812, 120822, 123200, 123632, 125264,
     130032]"

definition digit_value :: "nat \<Rightarrow> nat option" where
  "digit_value c = map_option (\<lambda>s. c - s) (find (\<lambda>s. s \<le> c \<and> c < s + 10) nd_starts)"

definition is_digit :: "nat \<Rightarrow> bool" where
  "is_digit c \<longleftrightarrow> digit_value c \<noteq> None"

text \<open>The exceptions that the code modelled here can raise.\<close>

datatype py_exception = ValueError | TypeError | re_error | AssertionError

text \<open>The number that a string of digits denotes.\<close>

definition digits_value :: "pystr \<Rightarrow> int" where
  "digits_value s =
     foldl (\<lambda>a c. 10 * a + int (case digit_value c of Some d \<Rightarrow> d | None \<Rightarrow> 0)) 0 s"

text \<open>
  \<open>int(s)\<close> on a string of one or more digits (the only strings the parser converts: the
  group \<open>(\d+)\<close> of a hunk header). CPython refuses to convert a string of more than 4300
  digits (\<open>sys.int_info.default_max_str_digits\<close>, a limit that the program never
  changes) and raises \<open>ValueError\<close>; leading zeros count.
\<close>

definition max_str_digits :: nat where
  "max_str_digits = 4300"

definition py_int :: "pystr \<Rightarrow> py_exception + int" where
  "py_int s = (if max_str_digits < length s then Inl ValueError else Inr (digits_value s))"

text \<open>The regex class \<open>[0-9a-f]\<close>.\<close>

definition is_hex :: "nat \<Rightarrow> bool" where
  "is_hex c \<longleftrightarrow> (48 \<le> c \<and> c \<le> 57) \<or> (97 \<le> c \<and> c \<le> 102)"

text \<open>
  \<open>str.splitlines()\<close>: the text is cut at every line boundary (LF, CR, CR LF, VT, FF,
  FS, GS, RS, NEL, LS, PS), the boundaries are dropped, and a text that ends in a
  boundary has no empty last line.
\<close>

definition is_linebreak :: "nat \<Rightarrow> bool" where
  "is_linebreak c \<longleftrightarrow> (10 \<le> c \<and> c \<le> 13) \<or> (28 \<le> c \<and> c \<le> 30) \<or> c = 133
     \<or> c = 8232 \<or> c = 8233"

fun splitlines_from :: "pystr \<Rightarrow> pystr \<Rightarrow> pystr list" where
  "splitlines_from cur [] = (if cur = [] then [] else [cur])"
| "splitlines_from cur [c] =
     (if is_linebreak c then [cur] else [cur @ [c]])"
| "splitlines_from cur (c # d # rest) =
     (if c = 13 \<and> d = 10 then cur # splitlines_from [] rest
      else if is_linebreak c then cur # splitlines_from [] (d # rest)
      else splitlines_from (cur @ [c]) (d # rest))"

definition splitlines :: "pystr \<Rightarrow> pystr list" where
  "splitlines text = splitlines_from [] text"

section \<open>The diff parser (git/diff\_parser.py, git/models.py)\<close>

datatype LineType = ADDED | REMOVED | CONTEXT

datatype FileStatus = F_ADDED | MODIFIED | DELETED | RENAMED | MODE_CHANGED

text \<open>
  The three classes the parser yields: \<open>DiffLine(file, line_no, content, line_type)\<close>,
  \<open>DiffFile(path, old_path, status)\<close> and \<open>FileSkipped(path, reason)\<close>.
\<close>

datatype DiffItem =
    DiffLine pystr int pystr LineType
  | DiffFile pystr "pystr option" FileStatus
  | FileSkipped pystr pystr

subsection \<open>The line patterns\<close>

text \<open>
  Each compiled pattern of the module is the function that \<open>.match(line)\<close> computes on
  one line of \<open>splitlines()\<close> (a line holds no line feed, so \<open>.\<close> is any character and
  \<open>$\<close> is the end of the line). A pattern with groups returns them.
\<close>

text \<open>One or more digits (\<open>\d+\<close>, greedy) and what follows them.\<close>

definition digits1 :: "pystr \<Rightarrow> (pystr \<times> pystr) option" where
  "digits1 s = (let ds = takeWhile is_digit s in
     if ds = [] then None else Some (ds, dropWhile is_digit s))"

definition hexes1 :: "pystr \<Rightarrow> (pystr \<times> pystr) option" where
  "hexes1 s = (let ds = takeWhile is_hex s in
     if ds = [] then None else Some (ds, dropWhile is_hex s))"

text \<open>The optional group \<open>(?:,(\d+))?\<close> and what follows it.\<close>

definition opt_count :: "pystr \<Rightarrow> pystr option \<times> pystr" where
  "opt_count s = (case after_prefix (str '','') s of
       None \<Rightarrow> (None, s)
     | Some t \<Rightarrow> (case digits1 t of None \<Rightarrow> (None, s) | Some (ds, r) \<Rightarrow> (Some ds, r)))"

text \<open>
  The last place where \<open>sep\<close> occurs in a string, as a greedy \<open>(.*)\<close> in front of the
  literal \<open>sep\<close> finds it: the text before it and the text behind it.
\<close>

fun rsplit_once :: "pystr \<Rightarrow> pystr \<Rightarrow> (pystr \<times> pystr) option" where
  "rsplit_once sep [] = after_prefix sep [] \<bind> (\<lambda>b. Some ([], b))"
| "rsplit_once sep (c # cs) =
     (case rsplit_once sep cs of
        Some (a, b) \<Rightarrow> Some (c # a, b)
      | None \<Rightarrow> after_prefix sep (c # cs) \<bind> (\<lambda>b. Some ([], b)))"

text \<open>\<open>^diff --git a/(.*) b/(.*)$\<close>: groups 1 and 2.\<close>

definition DIFF_HEADER_RE :: "pystr \<Rightarrow> (pystr \<times> pystr) option" where
  "DIFF_HEADER_RE line = after_prefix (str ''diff --git a/'') line \<bind> rsplit_once (str '' b/'')"

text \<open>\<open>^@@ -(\d+)(?:,(\d+))? \+(\d+)(?:,(\d+))? @@\<close>: groups 1 to 4.\<close>

definition HUNK_HEADER_RE ::
  "pystr \<Rightarrow> (pystr \<times> pystr option \<times> pystr \<times> pystr option) option" where
  "HUNK_HEADER_RE line =
     do {
       s1 \<leftarrow> after_prefix (str ''@@ -'') line;
       (a, s2) \<leftarrow> digits1 s1;
       (b, s3) \<leftarrow> Some (opt_count s2);
       s4 \<leftarrow> after_prefix (str '' +'') s3;
       (c, s5) \<leftarrow> digits1 s4;
       (d, s6) \<leftarrow> Some (opt_count s5);
       if startswith s6 (str '' @@'') then Some (a, b, c, d) else None
     }"

text \<open>Is \<open>sep\<close> a substring of the string?\<close>

fun contains :: "pystr \<Rightarrow> pystr \<Rightarrow> bool" where
  "contains [] sep = (sep = [])"
| "contains (c # cs) sep = (startswith (c # cs) sep \<or> contains cs sep)"

text \<open>\<open>^Binary files .* and .* differ$\<close>.\<close>

definition BINARY_RE :: "pystr \<Rightarrow> bool" where
  "BINARY_RE line =
     (case after_prefix (str ''Binary files '') line of
        None \<Rightarrow> False
      | Some rest \<Rightarrow>
          length (str '' differ'') \<le> length rest
          \<and> drop (length rest - length (str '' differ'')) rest = str '' differ''
          \<and> contains (take (length rest - length (str '' differ'')) rest) (str '' and ''))"

text \<open>\<open>^rename from (.+)$\<close> and \<open>^rename to (.+)$\<close>: group 1.\<close>

definition RENAME_FROM_RE :: "pystr \<Rightarrow> pystr option" where
  "RENAME_FROM_RE line =
     (case after_prefix (str ''rename from '') line of
        None \<Rightarrow> None | Some g \<Rightarrow> if g = [] then None else Some g)"

definition RENAME_TO_RE :: "pystr \<Rightarrow> pystr option" where
  "RENAME_TO_RE line =
     (case after_prefix (str ''rename to '') line of
        None \<Rightarrow> None | Some g \<Rightarrow> if g = [] then None else Some g)"

text \<open>\<open>^[+-]?Subproject commit [0-9a-f]+$\<close>.\<close>

definition SUBPROJECT_RE :: "pystr \<Rightarrow> bool" where
  "SUBPROJECT_RE line =
     (let s = (if startswith line (str ''+'') \<or> startswith line (str ''-'') then tl line else line)
      in case after_prefix (str ''Subproject commit '') s of
           None \<Rightarrow> False
         | Some h \<Rightarrow> h \<noteq> [] \<and> list_all is_hex h)"

text \<open>\<open>^\\ No newline at end of file$\<close>.\<close>

definition NO_NEWLINE_RE :: "pystr \<Rightarrow> bool" where
  "NO_NEWLINE_RE line = (line = 92 # str '' No newline at end of file'')"

text \<open>\<open>^--- (?:a/|/dev/null)\<close> and \<open>^\+\+\+ (?:b/|/dev/null)\<close>.\<close>

definition FILE_HEADER_OLD :: "pystr \<Rightarrow> bool" where
  "FILE_HEADER_OLD line =
     (startswith line (str ''--- a/'') \<or> startswith line (str ''--- /dev/null''))"

definition FILE_HEADER_NEW :: "pystr \<Rightarrow> bool" where
  "FILE_HEADER_NEW line =
     (startswith line (str ''+++ b/'') \<or> startswith line (str ''+++ /dev/null''))"

text \<open>A literal prefix followed by digits up to the end of the line: \<open>^prefix\d+$\<close>.\<close>

definition prefix_digits :: "pystr \<Rightarrow> pystr \<Rightarrow> bool" where
  "prefix_digits p line =
     (case after_prefix p line of None \<Rightarrow> False | Some ds \<Rightarrow> ds \<noteq> [] \<and> list_all is_digit ds)"

text \<open>\<open>^similarity index \d+%$\<close>.\<close>

definition SIMILARITY_RE :: "pystr \<Rightarrow> bool" where
  "SIMILARITY_RE line =
     (case after_prefix (str ''similarity index '') line \<bind> digits1 of
        None \<Rightarrow> False | Some (ds, r) \<Rightarrow> r = str ''%'')"

definition OLD_MODE_RE :: "pystr \<Rightarrow> bool" where
  "OLD_MODE_RE = prefix_digits (str ''old mode '')"

definition NEW_MODE_RE :: "pystr \<Rightarrow> bool" where
  "NEW_MODE_RE = prefix_digits (str ''new mode '')"

definition DELETED_FILE_RE :: "pystr \<Rightarrow> bool" where
  "DELETED_FILE_RE = prefix_digits (str ''deleted file mode '')"

definition NEW_FILE_RE :: "pystr \<Rightarrow> bool" where
  "NEW_FILE_RE = prefix_digits (str ''new file mode '')"

text \<open>\<open>^index [0-9a-f]+\.\.[0-9a-f]+\<close>.\<close>

definition INDEX_RE :: "pystr \<Rightarrow> bool" where
  "INDEX_RE line =
     (case after_prefix (str ''index '') line \<bind> hexes1 of
        None \<Rightarrow> False
      | Some (h1, r) \<Rightarrow>
          (case after_prefix (str ''..'') r \<bind> hexes1 of None \<Rightarrow> False | Some _ \<Rightarrow> True))"

subsection \<open>The parser\<close>

text \<open>\<open>_strip_bom\<close>: \<open>line.lstrip(BOM)\<close>, which removes every leading U+FEFF.\<close>

definition strip_bom :: "pystr \<Rightarrow> pystr" where
  "strip_bom line = dropWhile (\<lambda>c. c = BOM) line"

text \<open>The local variables of \<open>DiffParser.parse\<close>.\<close>

record parser_state =
  current_file :: "pystr option"
  old_file :: "pystr option"
  line_no :: int
  is_rename :: bool
  is_mode_only :: bool
  is_deleted :: bool
  is_binary :: bool
  hunk_remaining :: int
  hunk_buffer :: "DiffItem list"

definition initial_state :: parser_state where
  "initial_state = \<lparr>current_file = None, old_file = None, line_no = 0, is_rename = False,
     is_mode_only = False, is_deleted = False, is_binary = False, hunk_remaining = 0,
     hunk_buffer = []\<rparr>"

text \<open>
  The inner loop over the sub-headers that follow a \<open>diff --git\<close> line: it returns the
  state and the lines from the first one that is not a sub-header.
\<close>

fun sub_headers :: "parser_state \<Rightarrow> pystr list \<Rightarrow> parser_state \<times> pystr list" where
  "sub_headers st [] = (st, [])"
| "sub_headers st (sub # rest) =
     (if INDEX_RE sub then sub_headers st rest
      else if SIMILARITY_RE sub then sub_headers st rest
      else if OLD_MODE_RE sub then sub_headers (st\<lparr>is_mode_only := True\<rparr>) rest
      else if NEW_MODE_RE sub then sub_headers st rest
      else if DELETED_FILE_RE sub then sub_headers (st\<lparr>is_deleted := True\<rparr>) rest
      else if NEW_FILE_RE sub then sub_headers st rest
      else case RENAME_FROM_RE sub of
        Some g \<Rightarrow> sub_headers (st\<lparr>old_file := Some g, is_rename := True\<rparr>) rest
      | None \<Rightarrow>
         (case RENAME_TO_RE sub of
            Some g \<Rightarrow> sub_headers (st\<lparr>current_file := Some g\<rparr>) rest
          | None \<Rightarrow>
              if BINARY_RE sub then sub_headers (st\<lparr>is_binary := True\<rparr>) rest
              else (st, sub # rest)))"

text \<open>\<open>_has_hunks_ahead\<close>, on the lines from \<open>idx\<close> on.\<close>

fun has_hunks_ahead :: "pystr list \<Rightarrow> bool" where
  "has_hunks_ahead [] = False"
| "has_hunks_ahead (line # rest) =
     (if DIFF_HEADER_RE line \<noteq> None then False
      else if HUNK_HEADER_RE line \<noteq> None then True
      else has_hunks_ahead rest)"

lemma sub_headers_length: "length (snd (sub_headers st ls)) \<le> length ls"
  by (induction ls arbitrary: st) (auto split: option.splits simp: le_SucI)

text \<open>
  The state after a \<open>diff --git\<close> line with the groups \<open>g1\<close> and \<open>g2\<close>, before the
  sub-headers are read.
\<close>

definition enter_file :: "parser_state \<Rightarrow> pystr \<Rightarrow> pystr \<Rightarrow> parser_state" where
  "enter_file st g1 g2 = st\<lparr>hunk_buffer := [], old_file := Some g1, current_file := Some g2,
     is_rename := False, is_mode_only := False, is_deleted := False, is_binary := False,
     hunk_remaining := 0\<rparr>"

text \<open>
  The metadata item a file block yields once its sub-headers are read; \<open>ahead\<close> are the
  lines that follow them.
\<close>

definition file_item :: "parser_state \<Rightarrow> pystr \<Rightarrow> pystr list \<Rightarrow> DiffItem" where
  "file_item st path ahead =
     (if is_binary st then FileSkipped path (str ''binary'')
      else if is_mode_only st \<and> \<not> has_hunks_ahead ahead then FileSkipped path (str ''mode_only'')
      else DiffFile path (if is_rename st then old_file st else None)
             (if is_deleted st then DELETED else if is_rename st then RENAMED else MODIFIED))"

text \<open>
  The branch for content lines (the lines that match none of the patterns), when
  \<open>current_file\<close> is \<open>file\<close>: the state after the line.
\<close>

definition content_line :: "parser_state \<Rightarrow> pystr \<Rightarrow> pystr \<Rightarrow> parser_state" where
  "content_line st file raw_line =
     (if startswith raw_line (str ''+'') then
        st\<lparr>hunk_buffer := hunk_buffer st @
              [DiffLine file (line_no st) (strip_bom (tl raw_line)) ADDED],
           line_no := line_no st + 1\<rparr>
      else if startswith raw_line (str ''-'') then st
      else if startswith raw_line (str '' '') then st\<lparr>line_no := line_no st + 1\<rparr>
      else st)"

text \<open>
  \<open>parse\<close> is a generator. What it does is modelled by the list of the items that it
  yields together with the exception that ends it, if one does. \<open>emit items r\<close> yields
  \<open>items\<close> and goes on as \<open>r\<close>.
\<close>

type_synonym generated = "DiffItem list \<times> py_exception option"

definition emit :: "DiffItem list \<Rightarrow> generated \<Rightarrow> generated" where
  "emit items r = (items @ fst r, snd r)"

text \<open>
  The main loop of \<open>DiffParser.parse\<close> on the lines from \<open>idx\<close> on. At a hunk header the
  buffer is yielded first and then \<open>int(hm.group(3))\<close> is computed, which can raise.
  (After a \<open>diff --git\<close> line \<open>current_file\<close> is a string; the branch for \<open>None\<close> there is
  never taken.)
\<close>

function parse_loop :: "parser_state \<Rightarrow> pystr list \<Rightarrow> generated" where
  "parse_loop st [] = (hunk_buffer st, None)"
| "parse_loop st (raw_line # rest) =
     (case DIFF_HEADER_RE raw_line of
        Some (g1, g2) \<Rightarrow>
          (let (st', rest') = sub_headers (enter_file st g1 g2) rest in
             emit (hunk_buffer st)
               (case current_file st' of
                  None \<Rightarrow> parse_loop st' rest'
                | Some path \<Rightarrow> emit [file_item st' path rest'] (parse_loop st' rest')))
      | None \<Rightarrow>
          (if FILE_HEADER_OLD raw_line \<or> FILE_HEADER_NEW raw_line then parse_loop st rest
           else
             (case HUNK_HEADER_RE raw_line of
                Some (a, b, c, d) \<Rightarrow>
                  emit (hunk_buffer st)
                    (case py_int c of
                       Inl e \<Rightarrow> ([], Some e)
                     | Inr new_start \<Rightarrow>
                         parse_loop (st\<lparr>hunk_buffer := [], line_no := new_start\<rparr>) rest)
              | None \<Rightarrow>
                  (if SUBPROJECT_RE raw_line then parse_loop st rest
                   else if NO_NEWLINE_RE raw_line then parse_loop st rest
                   else
                     (case current_file st of
                        None \<Rightarrow> parse_loop st rest
                      | Some file \<Rightarrow> parse_loop (content_line st file raw_line) rest)))))"
  by pat_completeness auto
termination
  by (relation "measure (\<lambda>(st, ls). length ls)")
     (auto simp: split_beta less_Suc_eq_le sub_headers_length)

text \<open>
  \<open>list(DiffParser(diff_text).parse())\<close>: the list of the items, or the exception that
  the generator raises.
\<close>

definition parse :: "pystr \<Rightarrow> py_exception + DiffItem list" where
  "parse diff_text =
     (case parse_loop initial_state (splitlines diff_text) of
        (items, None) \<Rightarrow> Inr items
      | (items, Some e) \<Rightarrow> Inl e)"

text \<open>The line numbers of the added lines among the items, in order.\<close>

fun added_line_nos :: "DiffItem list \<Rightarrow> int list" where
  "added_line_nos [] = []"
| "added_line_nos (DiffLine f n c t # xs) = n # added_line_nos xs"
| "added_line_nos (_ # xs) = added_line_nos xs"

text \<open>
  The lines that the content branch of the loop turns into an added line: they match none
  of the patterns tested before it and start with \<open>+\<close>.
\<close>

definition emits_added :: "pystr \<Rightarrow> bool" where
  "emits_added l \<longleftrightarrow> DIFF_HEADER_RE l = None \<and> \<not> FILE_HEADER_OLD l \<and> \<not> FILE_HEADER_NEW l
     \<and> HUNK_HEADER_RE l = None \<and> \<not> SUBPROJECT_RE l \<and> \<not> NO_NEWLINE_RE l
     \<and> startswith l (str ''+'')"

text \<open>The lines that the sub-header loop consumes.\<close>

definition is_sub_header :: "pystr \<Rightarrow> bool" where
  "is_sub_header l \<longleftrightarrow> INDEX_RE l \<or> SIMILARITY_RE l \<or> OLD_MODE_RE l \<or> NEW_MODE_RE l
     \<or> DELETED_FILE_RE l \<or> NEW_FILE_RE l
     \<or> (case RENAME_FROM_RE l of Some g \<Rightarrow> True | None \<Rightarrow> False)
     \<or> (case RENAME_TO_RE l of Some g \<Rightarrow> True | None \<Rightarrow> False)
     \<or> BINARY_RE l"

text \<open>The number of context lines (lines that start with a space) in a list of lines.\<close>

definition count_context :: "pystr list \<Rightarrow> int" where
  "count_context ls = int (length (filter (\<lambda>l. startswith l (str '' '')) ls))"

text \<open>
  A hunk header whose new start has more digits than \<open>int\<close> converts, and a line that is
  no hunk header or whose new start is at least \<open>k\<close>.
\<close>

definition overlong_hunk_header :: "pystr \<Rightarrow> bool" where
  "overlong_hunk_header l =
     (case HUNK_HEADER_RE l of
        None \<Rightarrow> False
      | Some (a, b, c, d) \<Rightarrow> max_str_digits < length c)"

definition hunk_start_at_least :: "int \<Rightarrow> pystr \<Rightarrow> bool" where
  "hunk_start_at_least k l =
     (case HUNK_HEADER_RE l of
        None \<Rightarrow> True
      | Some (a, b, c, d) \<Rightarrow> k \<le> digits_value c)"

text \<open>The lines in front of the first hunk header.\<close>

definition before_first_hunk :: "pystr list \<Rightarrow> pystr list" where
  "before_first_hunk ls = takeWhile (\<lambda>l. HUNK_HEADER_RE l = None) ls"

section \<open>Severities (config/schema.py)\<close>

text \<open>\<open>SEVERITY_ORDER\<close>, a dict from the severity labels to their ranks.\<close>

definition SEVERITY_ORDER :: "pystr \<Rightarrow> int option" where
  "SEVERITY_ORDER s =
     (if s = str ''low'' then Some 0
      else if s = str ''medium'' then Some 1
      else if s = str ''high'' then Some 2
      else if s = str ''critical'' then Some 3
      else None)"

text \<open>\<open>SEVERITY_ORDER.get(s, 0)\<close>.\<close>

definition severity_rank :: "pystr \<Rightarrow> int" where
  "severity_rank s = (case SEVERITY_ORDER s of Some n \<Rightarrow> n | None \<Rightarrow> 0)"

definition severity_at_or_above :: "pystr \<Rightarrow> pystr \<Rightarrow> bool" where
  "severity_at_or_above finding_sev threshold \<longleftrightarrow>
     severity_rank threshold \<le> severity_rank finding_sev"

section \<open>Findings and their aggregation (findings/models.py, findings/aggregator.py)\<close>

text \<open>
  The dataclasses \<open>RawFinding\<close> and \<open>Finding\<close>; the fields carry a prefix because two
  records cannot share a field name. \<open>matched_value\<close> is optional: the engine stores
  Python's \<open>None\<close> there when the group \<open>secret\<close> of a pattern took no part in the match.
  An entropy value is a float; the model keeps it as a real number and never computes
  with it.
\<close>

record RawFinding =
  raw_rule_id :: pystr
  raw_rule_name :: pystr
  raw_severity :: pystr
  raw_category :: pystr
  raw_file :: pystr
  raw_line_no :: int
  raw_matched_value :: "pystr option"
  raw_description :: pystr
  raw_detection_method :: pystr
  raw_entropy_value :: "real option"
  raw_commit :: "pystr option"

record Finding =
  f_id :: pystr
  f_rule_id :: pystr
  f_rule_name :: pystr
  f_severity :: pystr
  f_category :: pystr
  f_file :: pystr
  f_line_no :: int
  f_matched_value :: "pystr option"
  f_description :: pystr
  f_detection_methods :: "pystr list"
  f_entropy_value :: "real option"
  f_commit :: "pystr option"
  f_is_blocking :: bool

text \<open>The decimal digits of a natural number, as \<open>str(n)\<close> and \<open>f"{n}"\<close> print it.\<close>

function decimal :: "nat \<Rightarrow> pystr" where
  "decimal n = (if n < 10 then [48 + n] else decimal (n div 10) @ [48 + n mod 10])"
  by pat_completeness auto
termination
  by (relation "measure id") auto

declare decimal.simps [simp del]

text \<open>\<open>f"{counter:03d}"\<close>: the digits, filled with zeros to three places.\<close>

definition decimal03 :: "nat \<Rightarrow> pystr" where
  "decimal03 n = replicate (3 - length (decimal n)) 48 @ decimal n"

type_synonym finding_key = "pystr \<times> pystr \<times> int"

definition key_of :: "RawFinding \<Rightarrow> finding_key" where
  "key_of raw = (raw_rule_id raw, raw_file raw, raw_line_no raw)"

text \<open>The branch \<open>if key in merged\<close>: the existing finding after the three updates.\<close>

definition merge_raw :: "RawFinding \<Rightarrow> Finding \<Rightarrow> Finding" where
  "merge_raw raw existing = existing
     \<lparr>f_detection_methods :=
        (if raw_detection_method raw \<in> set (f_detection_methods existing)
         then f_detection_methods existing
         else f_detection_methods existing @ [raw_detection_method raw]),
      f_severity :=
        (if severity_rank (f_severity existing) < severity_rank (raw_severity raw)
         then raw_severity raw else f_severity existing),
      f_entropy_value :=
        (case raw_entropy_value raw of Some h \<Rightarrow> Some h | None \<Rightarrow> f_entropy_value existing)\<rparr>"

text \<open>The branch \<open>else\<close>: the finding made from a raw finding with a new key.\<close>

definition new_finding :: "nat \<Rightarrow> RawFinding \<Rightarrow> pystr \<Rightarrow> Finding" where
  "new_finding counter raw fail_on =
     \<lparr>f_id = str ''FINDING-'' @ decimal03 counter,
      f_rule_id = raw_rule_id raw,
      f_rule_name = raw_rule_name raw,
      f_severity = raw_severity raw,
      f_category = raw_category raw,
      f_file = raw_file raw,
      f_line_no = raw_line_no raw,
      f_matched_value = raw_matched_value raw,
      f_description = raw_description raw,
      f_detection_methods = [raw_detection_method raw],
      f_entropy_value = raw_entropy_value raw,
      f_commit = raw_commit raw,
      f_is_blocking = severity_at_or_above (raw_severity raw) fail_on\<rparr>"

text \<open>
  \<open>merged\<close> is a dict, which keeps its keys in the order of their first insertion: an
  association list, in which \<open>merged[key]\<close> is updated in place.
\<close>

fun update_entry :: "finding_key \<Rightarrow> Finding \<Rightarrow> (finding_key \<times> Finding) list
    \<Rightarrow> (finding_key \<times> Finding) list" where
  "update_entry k v [] = []"
| "update_entry k v ((k', v') # kvs) =
     (if k' = k then (k', v) # kvs else (k', v') # update_entry k v kvs)"

text \<open>The loop of \<open>deduplicate\<close> over the raw findings.\<close>

fun dedup_loop :: "(finding_key \<times> Finding) list \<Rightarrow> nat \<Rightarrow> RawFinding list \<Rightarrow> pystr
    \<Rightarrow> (finding_key \<times> Finding) list" where
  "dedup_loop merged counter [] fail_on = merged"
| "dedup_loop merged counter (raw # raws) fail_on =
     (case map_of merged (key_of raw) of
        Some existing \<Rightarrow>
          dedup_loop (update_entry (key_of raw) (merge_raw raw existing) merged) counter raws
            fail_on
      | None \<Rightarrow>
          dedup_loop (merged @ [(key_of raw, new_finding (counter + 1) raw fail_on)])
            (counter + 1) raws fail_on)"

definition deduplicate :: "RawFinding list \<Rightarrow> pystr \<Rightarrow> Finding list" where
  "deduplicate raw_findings fail_on = map snd (dedup_loop [] 0 raw_findings fail_on)"

section \<open>Suppression (scanner/suppression.py)\<close>

record Suppression =
  sup_rule_id :: pystr
  sup_file :: pystr
  sup_line_no :: int
  sup_reason :: pystr
  sup_source :: pystr

text \<open>The regex class \<open>[A-Za-z0-9_,\s]\<close>.\<close>

definition scope_char :: "nat \<Rightarrow> bool" where
  "scope_char c \<longleftrightarrow> (65 \<le> c \<and> c \<le> 90) \<or> (97 \<le> c \<and> c \<le> 122) \<or> (48 \<le> c \<and> c \<le> 57)
     \<or> c = 95 \<or> c = 44 \<or> is_space c"

text \<open>
  \<open>_SUPPRESS_RE\<close> is \<open>#\s*(?:gitsafe-ignore|nosec)(?:\[([A-Za-z0-9_,\s]+)\])?\s*$\<close>.
  \<open>suppress_after_hash\<close> matches what follows the \<open>#\<close>; a match returns group 1 (which
  is absent when there are no brackets).
\<close>

definition suppress_after_hash :: "pystr \<Rightarrow> pystr option option" where
  "suppress_after_hash s =
     (let s1 = dropWhile is_space s in
      case (case after_prefix (str ''gitsafe-ignore'') s1 of
              Some r \<Rightarrow> Some r
            | None \<Rightarrow> after_prefix (str ''nosec'') s1) of
        None \<Rightarrow> None
      | Some s2 \<Rightarrow>
          (case after_prefix (str ''['') s2 of
             Some t \<Rightarrow>
               (let ids = takeWhile scope_char t in
                case after_prefix (str '']'') (dropWhile scope_char t) of
                  Some u \<Rightarrow> if ids \<noteq> [] \<and> list_all is_space u then Some (Some ids) else None
                | None \<Rightarrow> None)
           | None \<Rightarrow> if list_all is_space s2 then Some None else None))"

text \<open>\<open>_SUPPRESS_RE.search(line)\<close>: the match at the leftmost \<open>#\<close> that has one.\<close>

fun SUPPRESS_RE :: "pystr \<Rightarrow> pystr option option" where
  "SUPPRESS_RE [] = None"
| "SUPPRESS_RE (c # cs) =
     (if c = 35 then
        (case suppress_after_hash cs of Some g \<Rightarrow> Some g | None \<Rightarrow> SUPPRESS_RE cs)
      else SUPPRESS_RE cs)"

text \<open>\<open>s.split(sep)\<close> for a separator of one character.\<close>

fun split_on :: "nat \<Rightarrow> pystr \<Rightarrow> pystr list" where
  "split_on sep [] = [[]]"
| "split_on sep (c # cs) =
     (if c = sep then [] # split_on sep cs
      else (case split_on sep cs of [] \<Rightarrow> [[c]] | x # xs \<Rightarrow> (c # x) # xs))"

text \<open>
  \<open>parse_inline_suppression\<close>; a \<open>frozenset\<close> of rule ids is a set, and the second
  component is \<open>None\<close> when every rule is suppressed.
\<close>

definition parse_inline_suppression :: "pystr \<Rightarrow> bool \<times> pystr set option" where
  "parse_inline_suppression line_content =
     (case SUPPRESS_RE line_content of
        None \<Rightarrow> (False, None)
      | Some scope \<Rightarrow>
          (case scope of
             None \<Rightarrow> (True, None)
           | Some sc \<Rightarrow>
               if sc \<noteq> [] then
                 (True, Some (set (filter (\<lambda>r. r \<noteq> []) (map strip (split_on 44 sc)))))
               else (True, None)))"

definition is_pure_comment :: "pystr \<Rightarrow> bool" where
  "is_pure_comment line_content =
     (let stripped = strip line_content in
      startswith stripped (str ''#'') \<or> startswith stripped (str ''//'')
      \<or> startswith stripped (str ''/*''))"

type_synonym suppress_entry = "bool \<times> pystr set option"

text \<open>
  The loop of \<open>register_lines\<close>, with its three variables \<open>mapping\<close>, \<open>prev_suppress\<close>
  and \<open>prev_was_comment\<close>.
\<close>

fun register_loop :: "(int \<rightharpoonup> suppress_entry) \<Rightarrow> suppress_entry option \<Rightarrow> bool
    \<Rightarrow> (int \<times> pystr) list \<Rightarrow> (int \<rightharpoonup> suppress_entry)" where
  "register_loop mapping prev_suppress prev_was_comment [] = mapping"
| "register_loop mapping prev_suppress prev_was_comment ((lno, content) # rest) =
     (case parse_inline_suppression content of
        (suppressed, rule_ids) \<Rightarrow>
          if suppressed then
            (if is_pure_comment content then
               register_loop (mapping(lno \<mapsto> (True, rule_ids))) (Some (True, rule_ids)) True
                 rest
             else register_loop (mapping(lno \<mapsto> (True, rule_ids))) None False rest)
          else
            (case prev_suppress of
               Some prev \<Rightarrow>
                 if prev_was_comment then register_loop (mapping(lno \<mapsto> prev)) None False rest
                 else register_loop mapping None False rest
             | None \<Rightarrow> register_loop mapping None False rest))"

text \<open>The mapping that \<open>register_lines(file, lines)\<close> stores for the file.\<close>

definition register_lines :: "(int \<times> pystr) list \<Rightarrow> (int \<rightharpoonup> suppress_entry)" where
  "register_lines lines = register_loop Map.empty None False lines"

text \<open>The dict \<open>_line_suppressions\<close> of a \<open>SuppressionChecker\<close>.\<close>

type_synonym SuppressionChecker = "pystr \<rightharpoonup> (int \<rightharpoonup> suppress_entry)"

definition is_suppressed :: "SuppressionChecker \<Rightarrow> pystr \<Rightarrow> int \<Rightarrow> pystr \<Rightarrow> Suppression option" where
  "is_suppressed checker file lno rule_id =
     (case checker file of
        None \<Rightarrow> None
      | Some file_map \<Rightarrow>
          (case file_map lno of
             None \<Rightarrow> None
           | Some (suppress_all, specific_ids) \<Rightarrow>
               (case specific_ids of
                  None \<Rightarrow>
                    if suppress_all then
                      Some \<lparr>sup_rule_id = rule_id, sup_file = file, sup_line_no = lno,
                        sup_reason = str ''inline'', sup_source = str ''#gitsafe-ignore''\<rparr>
                    else None
                | Some ids \<Rightarrow>
                    if rule_id \<in> ids then
                      Some \<lparr>sup_rule_id = rule_id, sup_file = file, sup_line_no = lno,
                        sup_reason = str ''inline'',
                        sup_source = str ''#gitsafe-ignore['' @ rule_id @ str '']''\<rparr>
                    else None)))"

text \<open>
  A loaded \<open>GitSafeIgnore\<close>: its global globs and its globs per rule id. (Reading the
  file \<open>.gitsafeignore\<close> is input and output; the scan below takes the loaded object.)
  \<open>fnmatch\<close> is the library function, a parameter of the model.
\<close>

record GitSafeIgnore =
  global_patterns :: "pystr list"
  rule_patterns :: "pystr \<rightharpoonup> pystr list"

definition is_ignored :: "(pystr \<Rightarrow> pystr \<Rightarrow> bool) \<Rightarrow> GitSafeIgnore \<Rightarrow> pystr \<Rightarrow> pystr option \<Rightarrow> bool"
  where
  "is_ignored fnmatch ign filepath rule_id =
     (list_ex (\<lambda>pat. fnmatch filepath pat) (global_patterns ign)
      \<or> (case rule_id of
           None \<Rightarrow> False
         | Some rid \<Rightarrow>
             rid \<noteq> [] \<and>
             list_ex (\<lambda>pat. fnmatch filepath pat)
               (case rule_patterns ign rid of Some pats \<Rightarrow> pats | None \<Rightarrow> [])))"

text \<open>
  What one pass of the loop of \<open>register_lines\<close> does, in parts. \<open>own_entry\<close> is the entry
  that a line stores for itself (the branch \<open>if is_suppressed\<close>), \<open>next_entry\<close> the value of
  \<open>prev_suppress\<close> that it leaves for the entry after it, \<open>inherited\<close> the test
  \<open>prev_suppress is not None and prev_was_comment\<close>, and \<open>step_map\<close> the mapping after the
  pass.
\<close>

definition own_entry :: "pystr \<Rightarrow> suppress_entry option" where
  "own_entry content =
     (if fst (parse_inline_suppression content)
      then Some (True, snd (parse_inline_suppression content)) else None)"

definition next_entry :: "pystr \<Rightarrow> suppress_entry option" where
  "next_entry content =
     (if fst (parse_inline_suppression content) \<and> is_pure_comment content
      then Some (True, snd (parse_inline_suppression content)) else None)"

definition inherited :: "suppress_entry option \<Rightarrow> bool \<Rightarrow> suppress_entry option" where
  "inherited prev_suppress prev_was_comment =
     (case prev_suppress of
        Some prev \<Rightarrow> if prev_was_comment then Some prev else None
      | None \<Rightarrow> None)"

definition step_map :: "(int \<rightharpoonup> suppress_entry) \<Rightarrow> suppress_entry option \<Rightarrow> bool \<Rightarrow> int
    \<Rightarrow> pystr \<Rightarrow> (int \<rightharpoonup> suppress_entry)" where
  "step_map mapping prev_suppress prev_was_comment lno content =
     (case own_entry content of
        Some e \<Rightarrow> mapping(lno \<mapsto> e)
      | None \<Rightarrow>
          (case inherited prev_suppress prev_was_comment of
             Some prev \<Rightarrow> mapping(lno \<mapsto> prev)
           | None \<Rightarrow> mapping))"

text \<open>
  The loop without its two variables for the line before. \<open>entry_write lines k\<close> is what
  the pass for the \<open>k\<close>-th entry of the list writes into the mapping (\<open>None\<close>: it writes
  nothing), and \<open>last_write lines n\<close> is the last thing written for an entry with the
  line number \<open>n\<close>.
\<close>

definition entry_write :: "(int \<times> pystr) list \<Rightarrow> nat \<Rightarrow> suppress_entry option" where
  "entry_write lines k =
     (case own_entry (snd (lines ! k)) of
        Some e \<Rightarrow> Some e
      | None \<Rightarrow> if k = 0 then None else next_entry (snd (lines ! (k - 1))))"

definition last_write :: "(int \<times> pystr) list \<Rightarrow> int \<Rightarrow> suppress_entry option" where
  "last_write lines n =
     (case filter (\<lambda>k. fst (lines ! k) = n \<and> entry_write lines k \<noteq> None)
             (rev [0..<length lines]) of
        [] \<Rightarrow> None
      | k # ks \<Rightarrow> entry_write lines k)"

section \<open>The scan engine (scanner/engine.py)\<close>

subsection \<open>Rules, registry and configuration\<close>

text \<open>
  The dataclass \<open>Rule\<close> (rules/models.py). A pattern is kept as its source string, as in
  the code, and compiled on access.
\<close>

record Rule =
  rule_id :: pystr
  rule_name :: pystr
  rule_description :: pystr
  rule_category :: pystr
  rule_severity :: pystr
  rule_pattern :: "pystr option"
  rule_file_patterns :: "pystr list option"
  rule_min_entropy :: "real option"
  rule_min_length :: "int option"
  rule_allowlist_patterns :: "pystr list option"
  rule_enabled :: bool

definition is_file_rule :: "Rule \<Rightarrow> bool" where
  "is_file_rule rule \<longleftrightarrow> rule_file_patterns rule \<noteq> None \<and> rule_pattern rule = None"

definition is_entropy_rule :: "Rule \<Rightarrow> bool" where
  "is_entropy_rule rule \<longleftrightarrow> rule_min_entropy rule \<noteq> None"

text \<open>
  A \<open>RuleRegistry\<close> (rules/registry.py) is the list of the values of its dict \<open>_rules\<close>,
  in the order of the dict.
\<close>

type_synonym RuleRegistry = "Rule list"

definition enabled_rules :: "RuleRegistry \<Rightarrow> Rule list" where
  "enabled_rules registry = filter rule_enabled registry"

definition content_rules :: "RuleRegistry \<Rightarrow> Rule list" where
  "content_rules registry = filter (\<lambda>r. \<not> is_file_rule r) (enabled_rules registry)"

definition file_rules :: "RuleRegistry \<Rightarrow> Rule list" where
  "file_rules registry = filter is_file_rule (enabled_rules registry)"

text \<open>
  The fields of \<open>GitSafeConfig\<close> (config/schema.py) that the engine reads;
  \<open>scan_fail_on\<close> is \<open>config.scan.fail_on\<close>, and so on.
\<close>

record GitSafeConfig =
  scan_fail_on :: pystr
  scan_early_exit :: bool
  entropy_enabled :: bool
  entropy_min_entropy :: real
  entropy_min_length :: int
  ignore_files :: "pystr list"
  ignore_paths :: "pystr list"
  allowlist_patterns :: "pystr list"
  ci_max_findings :: "int option"

subsection \<open>The library functions\<close>

text \<open>
  What the engine reads of a \<open>re.Match\<close>: \<open>group(0)\<close>, and the named group \<open>secret\<close>.
  \<open>secret_group\<close> is \<open>None\<close> when the pattern has no group of that name
  (\<open>"secret" not in m.groupdict()\<close>), and \<open>Some None\<close> when the group took no part in the
  match, in which case \<open>m.group("secret")\<close> is Python's \<open>None\<close>.
\<close>

record rmatch =
  group0 :: pystr
  secret_group :: "pystr option option"

text \<open>A compiled pattern is its method \<open>search\<close>.\<close>

type_synonym regex = "pystr \<Rightarrow> rmatch option"

text \<open>
  The functions that the engine calls and that are not modelled here are parameters of
  the model: \<open>re.compile\<close> (with the flag \<open>re.IGNORECASE\<close> or without it; \<open>None\<close> when it
  raises \<open>re.error\<close>), \<open>fnmatch(name, pat)\<close>, \<open>Path(p).name\<close>, \<open>find_high_entropy\<close>
  (scanner/entropy.py, which computes with floats) and the float format \<open>.2f\<close>.
\<close>

record library =
  re_compile :: "pystr \<Rightarrow> bool \<Rightarrow> regex option"
  fnmatch :: "pystr \<Rightarrow> pystr \<Rightarrow> bool"
  path_name :: "pystr \<Rightarrow> pystr"
  find_high_entropy :: "pystr \<Rightarrow> real \<Rightarrow> int \<Rightarrow> (pystr \<times> real) list"
  format_2f :: "real \<Rightarrow> pystr"

text \<open>\<open>[re.compile(p, flags) for p in patterns]\<close>.\<close>

fun compile_list :: "library \<Rightarrow> bool \<Rightarrow> pystr list \<Rightarrow> py_exception + regex list" where
  "compile_list lib ignorecase [] = Inr []"
| "compile_list lib ignorecase (p # ps) =
     (case re_compile lib p ignorecase of
        None \<Rightarrow> Inl re_error
      | Some rx \<Rightarrow>
          (case compile_list lib ignorecase ps of
             Inl e \<Rightarrow> Inl e
           | Inr rxs \<Rightarrow> Inr (rx # rxs)))"

text \<open>The properties \<open>compiled_pattern\<close> and \<open>compiled_allowlist\<close> of a rule.\<close>

definition compiled_pattern :: "library \<Rightarrow> Rule \<Rightarrow> py_exception + regex option" where
  "compiled_pattern lib rule =
     (case rule_pattern rule of
        None \<Rightarrow> Inr None
      | Some p \<Rightarrow>
          (case re_compile lib p False of
             None \<Rightarrow> Inl re_error
           | Some rx \<Rightarrow> Inr (Some rx)))"

definition compiled_allowlist :: "library \<Rightarrow> Rule \<Rightarrow> py_exception + regex list" where
  "compiled_allowlist lib rule =
     (case rule_allowlist_patterns rule of
        None \<Rightarrow> Inr []
      | Some ps \<Rightarrow> if ps = [] then Inr [] else compile_list lib True ps)"

text \<open>
  \<open>any(p.search(text) for p in patterns)\<close>. The text is optional because the engine
  passes \<open>m.group("secret")\<close>, which can be \<open>None\<close>: then the first \<open>search\<close> raises
  \<open>TypeError\<close>, and with no pattern nothing is searched.
\<close>

definition any_search :: "pystr option \<Rightarrow> regex list \<Rightarrow> py_exception + bool" where
  "any_search text patterns =
     (case text of
        None \<Rightarrow> if patterns = [] then Inr False else Inl TypeError
      | Some t \<Rightarrow> Inr (list_ex (\<lambda>p. p t \<noteq> None) patterns))"

definition match_global_allowlist :: "pystr option \<Rightarrow> regex list \<Rightarrow> py_exception + bool" where
  "match_global_allowlist text patterns = any_search text patterns"

definition match_rule_allowlist :: "library \<Rightarrow> pystr option \<Rightarrow> Rule \<Rightarrow> py_exception + bool"
  where
  "match_rule_allowlist lib text rule =
     (case compiled_allowlist lib rule of
        Inl e \<Rightarrow> Inl e
      | Inr patterns \<Rightarrow> any_search text patterns)"

subsection \<open>The inner loops\<close>

text \<open>The local variables of \<open>scan\<close> that the main pass updates.\<close>

record scan_state =
  raw_findings :: "RawFinding list"
  suppressions :: "Suppression list"
  skipped_files :: "pystr list"
  scanned_files_set :: "pystr set"
  ignored_files_set :: "pystr set"

text \<open>
  The three inner loops (file rules, regex rules, entropy hits) have one shape: the body
  examines one element and either raises, or goes on to the next element with nothing
  recorded (\<open>continue\<close>, or the \<open>break\<close> of the pattern loop of a file rule), or appends a
  suppression, or appends a raw finding. \<open>outcome\<close> is what the body decides.
\<close>

datatype outcome = Raise py_exception | Skip | Suppress Suppression | Report RawFinding

text \<open>
  The loop itself: \<open>stop x\<close> is the test after a raw finding is appended that leaves the
  loop (the early exit of the regex rules). An exception comes with the state in
  which it was raised.
\<close>

fun run_checks :: "('a \<Rightarrow> bool) \<Rightarrow> ('a \<Rightarrow> outcome) \<Rightarrow> 'a list \<Rightarrow> scan_state
    \<Rightarrow> (py_exception \<times> scan_state) + scan_state" where
  "run_checks stop check [] st = Inr st"
| "run_checks stop check (x # xs) st =
     (case check x of
        Raise e \<Rightarrow> Inl (e, st)
      | Skip \<Rightarrow> run_checks stop check xs st
      | Suppress found \<Rightarrow>
          run_checks stop check xs (st\<lparr>suppressions := suppressions st @ [found]\<rparr>)
      | Report raw \<Rightarrow>
          (if stop x then Inr (st\<lparr>raw_findings := raw_findings st @ [raw]\<rparr>)
           else run_checks stop check xs (st\<lparr>raw_findings := raw_findings st @ [raw]\<rparr>)))"

text \<open>The body of \<open>for rule in file_rules\<close> (lines 120 to 141).\<close>

definition check_file_rule :: "library \<Rightarrow> pystr \<Rightarrow> Rule \<Rightarrow> outcome" where
  "check_file_rule lib filepath rule =
     (case rule_file_patterns rule of
        None \<Rightarrow> Raise AssertionError
      | Some pats \<Rightarrow>
          (let basename = path_name lib filepath in
           if list_ex (\<lambda>pat. fnmatch lib basename pat \<or> fnmatch lib filepath pat) pats then
             (case match_rule_allowlist lib (Some basename) rule of
                Inl e \<Rightarrow> Raise e
              | Inr allowed \<Rightarrow>
                  if allowed then Skip
                  else Report
                    \<lparr>raw_rule_id = rule_id rule, raw_rule_name = rule_name rule,
                     raw_severity = rule_severity rule, raw_category = rule_category rule,
                     raw_file = filepath, raw_line_no = 0, raw_matched_value = Some basename,
                     raw_description = rule_description rule,
                     raw_detection_method = str ''file_pattern'', raw_entropy_value = None,
                     raw_commit = None\<rparr>)
           else Skip))"

text \<open>The body of \<open>for rule in content_rules\<close> (lines 161 to 205).\<close>

definition check_rule :: "library \<Rightarrow> regex list \<Rightarrow> GitSafeIgnore \<Rightarrow> SuppressionChecker \<Rightarrow> pystr
    \<Rightarrow> int \<Rightarrow> pystr \<Rightarrow> Rule \<Rightarrow> outcome" where
  "check_rule lib global_allowlist ignorefile checker filepath lno line_content rule =
     (if is_entropy_rule rule then Skip
      else
        (case compiled_pattern lib rule of
           Inl e \<Rightarrow> Raise e
         | Inr None \<Rightarrow> Skip
         | Inr (Some cp) \<Rightarrow>
             (case cp line_content of
                None \<Rightarrow> Skip
              | Some m \<Rightarrow>
                  (let matched = (case secret_group m of Some g \<Rightarrow> g | None \<Rightarrow> Some (group0 m)) in
                   case match_rule_allowlist lib matched rule of
                     Inl e \<Rightarrow> Raise e
                   | Inr allowed \<Rightarrow>
                       if allowed then Skip
                       else
                         (case match_global_allowlist matched global_allowlist of
                            Inl e \<Rightarrow> Raise e
                          | Inr allowed_globally \<Rightarrow>
                              if allowed_globally then Skip
                              else if is_ignored (fnmatch lib) ignorefile filepath
                                        (Some (rule_id rule)) then Skip
                              else
                                (case is_suppressed checker filepath lno (rule_id rule) of
                                   Some found \<Rightarrow> Suppress found
                                 | None \<Rightarrow> Report
                                     \<lparr>raw_rule_id = rule_id rule, raw_rule_name = rule_name rule,
                                      raw_severity = rule_severity rule,
                                      raw_category = rule_category rule, raw_file = filepath,
                                      raw_line_no = lno, raw_matched_value = matched,
                                      raw_description = rule_description rule,
                                      raw_detection_method = str ''regex'',
                                      raw_entropy_value = None, raw_commit = None\<rparr>))))))"

text \<open>The body of \<open>for candidate, entropy_val in hits\<close> (lines 220 to 248).\<close>

definition check_hit :: "library \<Rightarrow> regex list \<Rightarrow> GitSafeIgnore \<Rightarrow> SuppressionChecker \<Rightarrow> pystr
    \<Rightarrow> int \<Rightarrow> pystr \<times> real \<Rightarrow> outcome" where
  "check_hit lib global_allowlist ignorefile checker filepath lno hit =
     (case hit of (candidate, entropy_val) \<Rightarrow>
        (case match_global_allowlist (Some candidate) global_allowlist of
           Inl e \<Rightarrow> Raise e
         | Inr allowed_globally \<Rightarrow>
             if allowed_globally then Skip
             else if is_ignored (fnmatch lib) ignorefile filepath
                       (Some (str ''HIGH_ENTROPY_STRING'')) then Skip
             else
               (case is_suppressed checker filepath lno (str ''HIGH_ENTROPY_STRING'') of
                  Some found \<Rightarrow> Suppress found
                | None \<Rightarrow> Report
                    \<lparr>raw_rule_id = str ''HIGH_ENTROPY_STRING'',
                     raw_rule_name = str ''High-Entropy String'',
                     raw_severity = str ''medium'', raw_category = str ''sensitive'',
                     raw_file = filepath, raw_line_no = lno, raw_matched_value = Some candidate,
                     raw_description =
                       str ''Shannon entropy '' @ format_2f lib entropy_val @ str '' bits'',
                     raw_detection_method = str ''entropy'',
                     raw_entropy_value = Some entropy_val, raw_commit = None\<rparr>)))"

subsection \<open>The main pass\<close>

text \<open>What the pass does with one added line of a file that is not ignored (lines 160 to 248).\<close>

definition scan_line :: "library \<Rightarrow> GitSafeConfig \<Rightarrow> regex list \<Rightarrow> GitSafeIgnore
    \<Rightarrow> SuppressionChecker \<Rightarrow> Rule list \<Rightarrow> pystr \<Rightarrow> int \<Rightarrow> pystr \<Rightarrow> scan_state
    \<Rightarrow> (py_exception \<times> scan_state) + scan_state" where
  "scan_line lib config global_allowlist ignorefile checker rules filepath lno line_content st =
     (case run_checks (\<lambda>rule. scan_early_exit config \<and> rule_severity rule = str ''critical'')
             (check_rule lib global_allowlist ignorefile checker filepath lno line_content)
             rules st of
        Inl x \<Rightarrow> Inl x
      | Inr st1 \<Rightarrow>
          if entropy_enabled config then
            run_checks (\<lambda>hit. False)
              (check_hit lib global_allowlist ignorefile checker filepath lno)
              (find_high_entropy lib line_content (entropy_min_entropy config)
                 (entropy_min_length config))
              st1
          else Inr st1)"

text \<open>The circuit breaker (lines 251 to 253).\<close>

definition circuit_breaker :: "GitSafeConfig \<Rightarrow> scan_state \<Rightarrow> bool" where
  "circuit_breaker config st =
     (case ci_max_findings config of
        None \<Rightarrow> False
      | Some n \<Rightarrow> n \<le> int (length (raw_findings st)))"

text \<open>The loop \<open>for item in diff_items\<close> inside the \<open>try\<close> (lines 95 to 253).\<close>

fun scan_loop :: "library \<Rightarrow> GitSafeConfig \<Rightarrow> regex list \<Rightarrow> GitSafeIgnore \<Rightarrow> SuppressionChecker
    \<Rightarrow> Rule list \<Rightarrow> Rule list \<Rightarrow> DiffItem list \<Rightarrow> scan_state
    \<Rightarrow> (py_exception \<times> scan_state) + scan_state" where
  "scan_loop lib config ga ign checker crules frules [] st = Inr st"
| "scan_loop lib config ga ign checker crules frules (FileSkipped path reason # rest) st =
     scan_loop lib config ga ign checker crules frules rest
       (st\<lparr>skipped_files := skipped_files st @ [path @ str '' ('' @ reason @ str '')'']\<rparr>)"
| "scan_loop lib config ga ign checker crules frules (DiffFile filepath old status # rest) st =
     (if list_ex (\<lambda>g. fnmatch lib filepath g) (ignore_files config @ ignore_paths config) then
        scan_loop lib config ga ign checker crules frules rest
          (st\<lparr>skipped_files := skipped_files st @ [filepath @ str '' (ignored)''],
              ignored_files_set := insert filepath (ignored_files_set st)\<rparr>)
      else if is_ignored (fnmatch lib) ign filepath None then
        scan_loop lib config ga ign checker crules frules rest
          (st\<lparr>skipped_files := skipped_files st @ [filepath @ str '' (gitsafeignore)''],
              ignored_files_set := insert filepath (ignored_files_set st)\<rparr>)
      else
        (case run_checks (\<lambda>rule. False) (check_file_rule lib filepath) frules
                (st\<lparr>scanned_files_set := insert filepath (scanned_files_set st)\<rparr>) of
           Inl x \<Rightarrow> Inl x
         | Inr st' \<Rightarrow> scan_loop lib config ga ign checker crules frules rest st'))"
| "scan_loop lib config ga ign checker crules frules (DiffLine file lno content line_type # rest) st =
     (if line_type \<noteq> ADDED then scan_loop lib config ga ign checker crules frules rest st
      else if file \<in> ignored_files_set st then
        scan_loop lib config ga ign checker crules frules rest st
      else
        (case scan_line lib config ga ign checker crules file lno content
                (st\<lparr>scanned_files_set := insert file (scanned_files_set st)\<rparr>) of
           Inl x \<Rightarrow> Inl x
         | Inr st' \<Rightarrow>
             if circuit_breaker config st' then Inr st'
             else scan_loop lib config ga ign checker crules frules rest st'))"

subsection \<open>The function \<open>scan\<close>\<close>

text \<open>
  \<open>file_lines[file]\<close>: the added lines of a file, in the order of the items, and the
  suppression checker after \<open>register_lines\<close> ran for every file that has added lines.
\<close>

definition file_lines :: "DiffItem list \<Rightarrow> pystr \<Rightarrow> (int \<times> pystr) list" where
  "file_lines diff_items file =
     List.map_filter
       (\<lambda>item. case item of
           DiffLine f n c t \<Rightarrow> if f = file \<and> t = ADDED then Some (n, c) else None
         | DiffFile p old status \<Rightarrow> None
         | FileSkipped p reason \<Rightarrow> None)
       diff_items"

definition build_checker :: "DiffItem list \<Rightarrow> SuppressionChecker" where
  "build_checker diff_items =
     (\<lambda>file. if file_lines diff_items file = [] then None
             else Some (register_lines (file_lines diff_items file)))"

definition initial_scan_state :: scan_state where
  "initial_scan_state =
     \<lparr>raw_findings = [], suppressions = [], skipped_files = [], scanned_files_set = {},
      ignored_files_set = {}\<rparr>"

text \<open>The main pass on the items of a diff, from the empty lists.\<close>

definition scan_pass :: "library \<Rightarrow> GitSafeConfig \<Rightarrow> RuleRegistry \<Rightarrow> GitSafeIgnore \<Rightarrow> regex list
    \<Rightarrow> DiffItem list \<Rightarrow> (py_exception \<times> scan_state) + scan_state" where
  "scan_pass lib config registry ignorefile global_allowlist diff_items =
     scan_loop lib config global_allowlist ignorefile (build_checker diff_items)
       (content_rules registry) (file_rules registry) diff_items initial_scan_state"

text \<open>
  What \<open>scan\<close> raises: a \<open>ScanError\<close> with its message, or an exception that it does not
  catch.
\<close>

datatype scan_exception = ScanError pystr | Uncaught py_exception

text \<open>
  The handler \<open>except Exception\<close> (lines 257 to 265): the state after
  \<open>raw_findings.clear()\<close>, and the exception that it raises.
\<close>

definition on_internal_error :: "scan_state \<Rightarrow> scan_state \<times> scan_exception" where
  "on_internal_error st =
     (let raw_findings_count = length (raw_findings st) in
      (st\<lparr>raw_findings := []\<rparr>,
       ScanError (str ''Internal scanner error after '' @ decimal raw_findings_count
         @ str '' findings. '' @ str ''Secrets have been scrubbed from this error.'')))"

text \<open>
  The \<open>ScanResult\<close> (findings/models.py), without \<open>scan_duration_ms\<close>, which is a reading
  of the clock.
\<close>

record ScanResult =
  findings :: "Finding list"
  suppressed :: "Suppression list"
  res_skipped_files :: "pystr list"
  scanned_files :: nat
  blocked :: bool

text \<open>
  \<open>scan\<close>. The \<open>.gitsafeignore\<close> file of \<open>repo_root\<close> comes loaded, as \<open>ignorefile\<close>.
  The global allowlist is compiled and the diff is parsed (\<open>list(parser.parse())\<close>, line
  77) before the \<open>try\<close>, so an exception of either goes through uncaught.
\<close>

definition scan :: "library \<Rightarrow> pystr \<Rightarrow> GitSafeConfig \<Rightarrow> RuleRegistry \<Rightarrow> GitSafeIgnore
    \<Rightarrow> scan_exception + ScanResult" where
  "scan lib diff_text config registry ignorefile =
     (case compile_list lib True (allowlist_patterns config) of
        Inl e \<Rightarrow> Inl (Uncaught e)
      | Inr global_allowlist \<Rightarrow>
          (case parse diff_text of
             Inl e \<Rightarrow> Inl (Uncaught e)
           | Inr diff_items \<Rightarrow>
               (case scan_pass lib config registry ignorefile global_allowlist diff_items of
                  Inl (e, st) \<Rightarrow> Inl (snd (on_internal_error st))
                | Inr st \<Rightarrow>
                    (let fs = deduplicate (raw_findings st) (scan_fail_on config) in
                     Inr \<lparr>findings = fs, suppressed = suppressions st,
                          res_skipped_files = skipped_files st,
                          scanned_files = card (scanned_files_set st),
                          blocked = list_ex f_is_blocking fs\<rparr>))))"

text \<open>
  A library for the examples. It stands for the Python functions on the inputs of the
  examples only: a pattern there is either \<open>(\<close>, which \<open>re.compile\<close> rejects, or a string
  of lower-case letters and digits, which matches where it occurs as a substring (the
  examples compile with \<open>re.IGNORECASE\<close> only patterns of digits, for which the flag
  changes nothing); a glob holds none of \<open>*\<close>, \<open>?\<close> and \<open>[\<close>, so that it matches the equal
  name only; a path holds no \<open>/\<close>, so that it is its own name. The examples switch the
  entropy scan off.
\<close>

definition example_library :: library where
  "example_library =
     \<lparr>re_compile = (\<lambda>p ignorecase.
        if p = str ''('' then None
        else Some (\<lambda>text. if contains text p
                           then Some \<lparr>group0 = p, secret_group = None\<rparr> else None)),
      fnmatch = (\<lambda>name pat. name = pat),
      path_name = (\<lambda>p. p),
      find_high_entropy = (\<lambda>line min_ent min_len. []),
      format_2f = (\<lambda>h. [])\<rparr>"

text \<open>
  For the examples: the default configuration of config/schema.py with the entropy scan
  switched off, a content rule with a pattern and no allowlist of its own, and the ignore
  file of a repository that has none.
\<close>

definition example_config :: GitSafeConfig where
  "example_config =
     \<lparr>scan_fail_on = str ''high'', scan_early_exit = False, entropy_enabled = False,
      entropy_min_entropy = 4, entropy_min_length = 16, ignore_files = [], ignore_paths = [],
      allowlist_patterns = [], ci_max_findings = None\<rparr>"

definition example_rule :: "string \<Rightarrow> string \<Rightarrow> string \<Rightarrow> Rule" where
  "example_rule name severity pat =
     \<lparr>rule_id = str name, rule_name = str name, rule_description = str ''example'',
      rule_category = str ''secret'', rule_severity = str severity,
      rule_pattern = Some (str pat), rule_file_patterns = None, rule_min_entropy = None,
      rule_min_length = None, rule_allowlist_patterns = None, rule_enabled = True\<rparr>"

definition empty_ignorefile :: GitSafeIgnore where
  "empty_ignorefile = \<lparr>global_patterns = [], rule_patterns = Map.empty\<rparr>"

text \<open>The key of a finding.\<close>

definition finding_key :: "Finding \<Rightarrow> finding_key" where
  "finding_key f = (f_rule_id f, f_file f, f_line_no f)"

text \<open>
  Three relations for comparing two runs of the main pass. \<open>hit\<close> forgets of an outcome
  whether the hit was suppressed or reported. \<open>covers o1 o2\<close>: whatever \<open>o2\<close> records,
  \<open>o1\<close> records too, and \<open>o1\<close> raises only if \<open>o2\<close> does. \<open>same_count\<close> and \<open>superset_of\<close> are
  their counterparts on states.
\<close>

definition hit :: "outcome \<Rightarrow> py_exception + bool" where
  "hit out =
     (case out of
        Raise e \<Rightarrow> Inl e
      | Skip \<Rightarrow> Inr False
      | Suppress found \<Rightarrow> Inr True
      | Report raw \<Rightarrow> Inr True)"




section \<open>Properties of the parser\<close>

lemmas parser_eval = parse_def str_def splitlines_def initial_state_def DIFF_HEADER_RE_def
  HUNK_HEADER_RE_def FILE_HEADER_OLD_def FILE_HEADER_NEW_def SUBPROJECT_RE_def NO_NEWLINE_RE_def
  content_line_def enter_file_def file_item_def INDEX_RE_def SIMILARITY_RE_def OLD_MODE_RE_def
  NEW_MODE_RE_def DELETED_FILE_RE_def NEW_FILE_RE_def RENAME_FROM_RE_def RENAME_TO_RE_def
  BINARY_RE_def prefix_digits_def digits1_def hexes1_def opt_count_def is_digit_def
  digit_value_def nd_starts_def is_hex_def is_linebreak_def strip_bom_def BOM_def py_int_def
  digits_value_def max_str_digits_def emit_def

lemma fst_emit: "fst (emit xs r) = xs @ fst r"
  by (simp add: emit_def)

lemma snd_emit: "snd (emit xs r) = snd r"
  by (simp add: emit_def)

lemma emit_Nil: "emit [] r = r"
  by (simp add: emit_def)

lemma emit_emit: "emit xs (emit ys r) = emit (xs @ ys) r"
  by (simp add: emit_def)

lemma added_line_nos_append: "added_line_nos (xs @ ys) = added_line_nos xs @ added_line_nos ys"
  by (induction xs rule: added_line_nos.induct) auto

lemma after_prefix_Some: "after_prefix p l = Some r \<Longrightarrow> l = p @ r"
  by (induction p l rule: after_prefix.induct) (auto split: if_splits)

lemma startswith_append: "startswith l p \<Longrightarrow> \<exists>r. l = p @ r"
  by (induction l p rule: startswith.induct) auto

lemma hunk_header_first: "HUNK_HEADER_RE l = Some x \<Longrightarrow> \<exists>r. l = 64 # r"
  by (auto simp: HUNK_HEADER_RE_def str_def split: Option.bind_splits dest!: after_prefix_Some)

lemma hunk_header_only:
  assumes "HUNK_HEADER_RE l = Some x"
  shows "DIFF_HEADER_RE l = None" "\<not> FILE_HEADER_OLD l" "\<not> FILE_HEADER_NEW l"
    "\<not> is_sub_header l" "\<not> emits_added l"
proof -
  from hunk_header_first [OF assms] obtain r where l: "l = 64 # r" ..
  show "DIFF_HEADER_RE l = None" "\<not> FILE_HEADER_OLD l" "\<not> FILE_HEADER_NEW l"
    unfolding l by (simp_all add: DIFF_HEADER_RE_def FILE_HEADER_OLD_def FILE_HEADER_NEW_def str_def)
  show "\<not> is_sub_header l"
    unfolding l by (simp add: is_sub_header_def INDEX_RE_def SIMILARITY_RE_def OLD_MODE_RE_def
        NEW_MODE_RE_def DELETED_FILE_RE_def NEW_FILE_RE_def RENAME_FROM_RE_def RENAME_TO_RE_def
        BINARY_RE_def prefix_digits_def str_def)
  show "\<not> emits_added l" using assms by (simp add: emits_added_def)
qed

lemma added_not_sub_header: "emits_added l \<Longrightarrow> \<not> is_sub_header l"
proof -
  assume "emits_added l"
  then have "startswith l (str ''+'')" by (simp add: emits_added_def)
  from startswith_append [OF this] obtain r where l: "l = 43 # r" by (auto simp: str_def)
  show "\<not> is_sub_header l"
    unfolding l by (simp add: is_sub_header_def INDEX_RE_def SIMILARITY_RE_def OLD_MODE_RE_def
        NEW_MODE_RE_def DELETED_FILE_RE_def NEW_FILE_RE_def RENAME_FROM_RE_def RENAME_TO_RE_def
        BINARY_RE_def prefix_digits_def str_def)
qed

lemma context_line_only:
  assumes "startswith l (str '' '')"
  shows "DIFF_HEADER_RE l = None" "\<not> FILE_HEADER_OLD l" "\<not> FILE_HEADER_NEW l"
    "HUNK_HEADER_RE l = None" "\<not> SUBPROJECT_RE l" "\<not> NO_NEWLINE_RE l"
    "\<not> startswith l (str ''+'')" "\<not> startswith l (str ''-'')"
proof -
  from startswith_append [OF assms] obtain r where l: "l = 32 # r" by (auto simp: str_def)
  show "DIFF_HEADER_RE l = None" "\<not> FILE_HEADER_OLD l" "\<not> FILE_HEADER_NEW l"
    "HUNK_HEADER_RE l = None" "\<not> SUBPROJECT_RE l" "\<not> NO_NEWLINE_RE l"
    "\<not> startswith l (str ''+'')" "\<not> startswith l (str ''-'')"
    unfolding l by (simp_all add: DIFF_HEADER_RE_def FILE_HEADER_OLD_def FILE_HEADER_NEW_def
        HUNK_HEADER_RE_def SUBPROJECT_RE_def NO_NEWLINE_RE_def str_def)
qed

text \<open>The sub-header loop drops sub-headers from the front of the lines and nothing else.\<close>

lemma sub_headers_split:
  "sub_headers st ls = (st', ls') \<Longrightarrow>
   \<exists>pre. ls = pre @ ls' \<and> (\<forall>l\<in>set pre. is_sub_header l)
     \<and> line_no st' = line_no st \<and> hunk_buffer st' = hunk_buffer st"
proof (induction ls arbitrary: st)
  case Nil
  then show ?case by simp
next
  case (Cons sub rest)
  show ?case
  proof (cases "is_sub_header sub")
    case False
    then have "sub_headers st (sub # rest) = (st, sub # rest)"
      by (simp add: is_sub_header_def split: option.splits)
    then show ?thesis using Cons.prems by auto
  next
    case True
    then obtain st1 where 1: "sub_headers st (sub # rest) = sub_headers st1 rest"
      and 2: "line_no st1 = line_no st" "hunk_buffer st1 = hunk_buffer st"
      by (fastforce simp: is_sub_header_def split: if_splits option.splits)
    from Cons.IH [of st1] Cons.prems 1 obtain pre where
      "rest = pre @ ls'" "\<forall>l\<in>set pre. is_sub_header l" "line_no st' = line_no st1"
      "hunk_buffer st' = hunk_buffer st1" by auto
    then have "sub # rest = (sub # pre) @ ls' \<and> (\<forall>l\<in>set (sub # pre). is_sub_header l)
       \<and> line_no st' = line_no st \<and> hunk_buffer st' = hunk_buffer st"
      using True 2 by simp
    then show ?thesis by blast
  qed
qed

text \<open>What the loop does with the first of its lines.\<close>

lemma parse_step:
  obtains
    (raise) a b c d where "HUNK_HEADER_RE l = Some (a, b, c, d)" "max_str_digits < length c"
      "parse_loop st (l # rest) = (hunk_buffer st, Some ValueError)"
  | (hunk) a b c d where "HUNK_HEADER_RE l = Some (a, b, c, d)" "length c \<le> max_str_digits"
      "parse_loop st (l # rest) =
         emit (hunk_buffer st) (parse_loop (st\<lparr>hunk_buffer := [], line_no := digits_value c\<rparr>) rest)"
  | (block) st' pre rest' item where "HUNK_HEADER_RE l = None" "rest = pre @ rest'"
      "\<forall>x\<in>set pre. is_sub_header x" "line_no st' = line_no st" "hunk_buffer st' = []"
      "added_line_nos item = []"
      "parse_loop st (l # rest) = emit (hunk_buffer st @ item) (parse_loop st' rest')"
  | (skip) "HUNK_HEADER_RE l = None" "\<not> emits_added l \<or> current_file st = None"
      "parse_loop st (l # rest) = parse_loop st rest"
  | (added) f where "HUNK_HEADER_RE l = None" "emits_added l" "current_file st = Some f"
      "parse_loop st (l # rest) =
         parse_loop (st\<lparr>hunk_buffer := hunk_buffer st
              @ [DiffLine f (line_no st) (strip_bom (tl l)) ADDED],
            line_no := line_no st + 1\<rparr>) rest"
  | (ctx) "HUNK_HEADER_RE l = None" "\<not> emits_added l"
      "parse_loop st (l # rest) = parse_loop (st\<lparr>line_no := line_no st + 1\<rparr>) rest"
proof (cases "HUNK_HEADER_RE l")
  case (Some h)
  obtain a b c d where h: "h = (a, b, c, d)" by (cases h)
  note hh = Some [unfolded h]
  show ?thesis
  proof (cases "max_str_digits < length c")
    case True
    have "parse_loop st (l # rest) = (hunk_buffer st, Some ValueError)"
      using hunk_header_only(1-3) [OF hh] hh True by (simp add: py_int_def emit_def)
    then show ?thesis using raise hh True by blast
  next
    case False
    have "parse_loop st (l # rest) =
         emit (hunk_buffer st) (parse_loop (st\<lparr>hunk_buffer := [], line_no := digits_value c\<rparr>) rest)"
      using hunk_header_only(1-3) [OF hh] hh False by (simp add: py_int_def)
    then show ?thesis using hunk hh False by (meson not_le)
  qed
next
  case None
  note nh = None
  show ?thesis
  proof (cases "DIFF_HEADER_RE l")
    case (Some g)
    obtain g1 g2 where g: "g = (g1, g2)" by (cases g)
    obtain st' rest' where sh: "sub_headers (enter_file st g1 g2) rest = (st', rest')"
      by (cases "sub_headers (enter_file st g1 g2) rest")
    from sub_headers_split [OF sh] obtain pre where pre: "rest = pre @ rest'"
      "\<forall>x\<in>set pre. is_sub_header x" "line_no st' = line_no st" "hunk_buffer st' = []"
      by (auto simp: enter_file_def)
    let ?item = "case current_file st' of None \<Rightarrow> [] | Some path \<Rightarrow> [file_item st' path rest']"
    have i: "added_line_nos ?item = []" by (simp add: file_item_def split: option.split)
    have "parse_loop st (l # rest) = emit (hunk_buffer st @ ?item) (parse_loop st' rest')"
      using Some g sh by (simp add: emit_def split: option.split)
    then show ?thesis using block [OF nh pre i] by blast
  next
    case None
    note nd = None
    show ?thesis
    proof (cases "FILE_HEADER_OLD l \<or> FILE_HEADER_NEW l \<or> SUBPROJECT_RE l \<or> NO_NEWLINE_RE l
        \<or> current_file st = None")
      case True
      have "parse_loop st (l # rest) = parse_loop st rest"
        using True nd nh by auto
      moreover have "\<not> emits_added l \<or> current_file st = None"
        using True by (auto simp: emits_added_def)
      ultimately show ?thesis using skip nh by blast
    next
      case False
      then obtain f where f: "current_file st = Some f" by auto
      show ?thesis
      proof (cases "startswith l (str ''+'')")
        case True
        have e: "emits_added l" using True False nd nh by (simp add: emits_added_def)
        have "parse_loop st (l # rest) =
          parse_loop (st\<lparr>hunk_buffer := hunk_buffer st
              @ [DiffLine f (line_no st) (strip_bom (tl l)) ADDED],
            line_no := line_no st + 1\<rparr>) rest"
          using True False nd nh f by (simp add: content_line_def)
        then show ?thesis using added nh e f by blast
      next
        case np: False
        have ne: "\<not> emits_added l" using np by (simp add: emits_added_def)
        show ?thesis
        proof (cases "startswith l (str '' '')")
          case True
          have "parse_loop st (l # rest) = parse_loop (st\<lparr>line_no := line_no st + 1\<rparr>) rest"
            using context_line_only [OF True] True f nd nh by (simp add: content_line_def)
          then show ?thesis using ctx nh ne by blast
        next
          case nsp: False
          have "parse_loop st (l # rest) = parse_loop st rest"
            using False np nsp f nd nh by (simp add: content_line_def)
          then show ?thesis using skip nh ne by blast
        qed
      qed
    qed
  qed
qed

lemma sub_header_not_overlong: "is_sub_header l \<Longrightarrow> \<not> overlong_hunk_header l"
  using hunk_header_only(4) [of l] by (auto simp: overlong_hunk_header_def split: option.splits)

lemma parse_loop_raises:
  "snd (parse_loop st ls) = (if list_ex overlong_hunk_header ls then Some ValueError else None)"
proof (induction "length ls" arbitrary: st ls rule: less_induct)
  case less
  show ?case
  proof (cases ls)
    case Nil
    show ?thesis unfolding Nil by simp
  next
    case (Cons l rest)
    have IH: "snd (parse_loop st' ls') =
        (if list_ex overlong_hunk_header ls' then Some ValueError else None)"
      if "length ls' \<le> length rest" for ls' st'
      by (rule less.hyps) (use that Cons in simp)
    show ?thesis
    proof (cases rule: parse_step [of l st rest])
      case (raise a b c d)
      then show ?thesis unfolding Cons by (simp add: overlong_hunk_header_def)
    next
      case (hunk a b c d)
      have "\<not> overlong_hunk_header l" using hunk(1,2) by (simp add: overlong_hunk_header_def)
      then show ?thesis unfolding Cons hunk(3) snd_emit using IH [of rest] by simp
    next
      case (block st' pre rest' item)
      have 1: "\<not> overlong_hunk_header l" using block(1) by (simp add: overlong_hunk_header_def)
      have 2: "list_ex overlong_hunk_header rest = list_ex overlong_hunk_header rest'"
        unfolding block(2) using block(3) by (auto simp: list_ex_iff sub_header_not_overlong)
      show ?thesis unfolding Cons block(7) snd_emit
        using IH [of rest' st'] 1 2 block(2) by simp
    next
      case skip
      have "\<not> overlong_hunk_header l" using skip(1) by (simp add: overlong_hunk_header_def)
      then show ?thesis unfolding Cons skip(3) using IH [of rest] by simp
    next
      case (added f)
      have "\<not> overlong_hunk_header l" using added(1) by (simp add: overlong_hunk_header_def)
      then show ?thesis unfolding Cons added(4) using IH [of rest] by simp
    next
      case ctx
      have "\<not> overlong_hunk_header l" using ctx(1) by (simp add: overlong_hunk_header_def)
      then show ?thesis unfolding Cons ctx(3) using IH [of rest] by simp
    qed
  qed
qed

lemma digits_value_nonneg_aux:
  "0 \<le> a \<Longrightarrow>
   0 \<le> foldl (\<lambda>a c. 10 * a + int (case digit_value c of Some d \<Rightarrow> d | None \<Rightarrow> 0)) a s"
  by (induction s arbitrary: a) auto

lemma digits_value_nonneg: "0 \<le> digits_value s"
  unfolding digits_value_def by (rule digits_value_nonneg_aux) simp

lemma hunk_start_nonneg: "hunk_start_at_least 0 l"
  by (simp add: hunk_start_at_least_def digits_value_nonneg split: option.split)

lemma before_first_hunk_Cons:
  "HUNK_HEADER_RE l = None \<Longrightarrow> before_first_hunk (l # rest) = l # before_first_hunk rest"
  by (simp add: before_first_hunk_def)

lemma sub_header_no_hunk: "is_sub_header l \<Longrightarrow> HUNK_HEADER_RE l = None"
  using hunk_header_only(4) [of l] by (cases "HUNK_HEADER_RE l") auto

lemma before_first_hunk_sub_headers:
  "\<forall>x\<in>set pre. is_sub_header x \<Longrightarrow> before_first_hunk (pre @ rest) = pre @ before_first_hunk rest"
  unfolding before_first_hunk_def
  by (rule takeWhile_append2) (simp add: sub_header_no_hunk)

text \<open>
  The line numbers of the added lines have the lower bound \<open>k\<close> when the new start of
  every hunk header has it and the loop, unless its counter has the bound already,
  turns no line into an added line before it reaches a hunk header.
\<close>

lemma parse_loop_bound:
  "\<forall>l\<in>set ls. hunk_start_at_least k l \<Longrightarrow>
   k \<le> line_no st \<or> (\<forall>l\<in>set (before_first_hunk ls). \<not> emits_added l) \<Longrightarrow>
   \<forall>n\<in>set (added_line_nos (hunk_buffer st)). k \<le> n \<Longrightarrow>
   \<forall>n\<in>set (added_line_nos (fst (parse_loop st ls))). k \<le> n"
proof (induction "length ls" arbitrary: st ls rule: less_induct)
  case less
  note hs = less.prems(1) and ok = less.prems(2) and buf = less.prems(3)
  show ?case
  proof (cases ls)
    case Nil
    show ?thesis unfolding Nil using buf by simp
  next
    case (Cons l rest)
    have IH: "\<forall>n\<in>set (added_line_nos (fst (parse_loop st' ls'))). k \<le> n"
      if "length ls' \<le> length rest" "\<forall>l\<in>set ls'. hunk_start_at_least k l"
        "k \<le> line_no st' \<or> (\<forall>l\<in>set (before_first_hunk ls'). \<not> emits_added l)"
        "\<forall>n\<in>set (added_line_nos (hunk_buffer st')). k \<le> n" for ls' st'
    proof (rule less.hyps)
      show "length ls' < length ls" using that(1) Cons by simp
    qed (fact that(2), fact that(3), fact that(4))
    have hs_rest: "\<forall>l\<in>set rest. hunk_start_at_least k l" using hs Cons by simp
    have ok_rest: "k \<le> line_no st \<or> (\<forall>l\<in>set (before_first_hunk rest). \<not> emits_added l)"
      if "HUNK_HEADER_RE l = None"
      using ok unfolding Cons before_first_hunk_Cons [OF that] by auto
    show ?thesis
    proof (cases rule: parse_step [of l st rest])
      case (raise a b c d)
      show ?thesis unfolding Cons raise(3) using buf by simp
    next
      case (hunk a b c d)
      have c: "k \<le> digits_value c"
        using hs hunk(1) unfolding Cons by (simp add: hunk_start_at_least_def)
      have 1: "\<forall>n\<in>set (added_line_nos (fst (parse_loop
          (st\<lparr>hunk_buffer := [], line_no := digits_value c\<rparr>) rest))). k \<le> n"
        by (rule IH) (simp, fact hs_rest, simp add: c, simp)
      show ?thesis unfolding Cons hunk(3) fst_emit added_line_nos_append set_append ball_Un
        by (rule conjI) (fact buf, fact 1)
    next
      case (block st' pre rest' item)
      have hs': "\<forall>l\<in>set rest'. hunk_start_at_least k l"
        using hs_rest unfolding block(2) by simp
      have ok': "k \<le> line_no st' \<or> (\<forall>l\<in>set (before_first_hunk rest'). \<not> emits_added l)"
        using ok_rest [OF block(1)]
        unfolding block(2) block(4) before_first_hunk_sub_headers [OF block(3)] by auto
      have 1: "\<forall>n\<in>set (added_line_nos (fst (parse_loop st' rest'))). k \<le> n"
        by (rule IH) (simp add: block(2), fact hs', fact ok', simp add: block(5))
      show ?thesis
        unfolding Cons block(7) fst_emit added_line_nos_append block(6) set_append ball_Un
        by (rule conjI, rule conjI) (fact buf, simp, fact 1)
    next
      case skip
      show ?thesis unfolding Cons skip(3)
        by (rule IH) (simp, fact hs_rest, fact ok_rest [OF skip(1)], fact buf)
    next
      case (added f)
      have "l \<in> set (before_first_hunk ls)"
        unfolding Cons before_first_hunk_Cons [OF added(1)] by simp
      then have k: "k \<le> line_no st" using ok added(2) by blast
      show ?thesis unfolding Cons added(4)
      proof (rule IH)
        show "length rest \<le> length rest" by simp
        show "\<forall>l\<in>set rest. hunk_start_at_least k l" by (fact hs_rest)
        show "k \<le> line_no (st\<lparr>hunk_buffer := hunk_buffer st
              @ [DiffLine f (line_no st) (strip_bom (tl l)) ADDED], line_no := line_no st + 1\<rparr>)
          \<or> (\<forall>l\<in>set (before_first_hunk rest). \<not> emits_added l)"
          using k by simp
        show "\<forall>n\<in>set (added_line_nos (hunk_buffer (st\<lparr>hunk_buffer := hunk_buffer st
              @ [DiffLine f (line_no st) (strip_bom (tl l)) ADDED], line_no := line_no st + 1\<rparr>))).
            k \<le> n"
          using k buf by (simp add: added_line_nos_append)
      qed
    next
      case ctx
      show ?thesis unfolding Cons ctx(3)
      proof (rule IH)
        show "length rest \<le> length rest" by simp
        show "\<forall>l\<in>set rest. hunk_start_at_least k l" by (fact hs_rest)
        show "k \<le> line_no (st\<lparr>line_no := line_no st + 1\<rparr>)
          \<or> (\<forall>l\<in>set (before_first_hunk rest). \<not> emits_added l)"
          using ok_rest [OF ctx(1)] by auto
        show "\<forall>n\<in>set (added_line_nos (hunk_buffer (st\<lparr>line_no := line_no st + 1\<rparr>))). k \<le> n"
          using buf by simp
      qed
    qed
  qed
qed

lemma parse_result:
  "parse text = (case snd (parse_loop initial_state (splitlines text)) of
      None \<Rightarrow> Inr (fst (parse_loop initial_state (splitlines text)))
    | Some e \<Rightarrow> Inl e)"
  by (simp add: parse_def split: prod.split option.split)

text \<open>Lines and texts with a run of zeros, for the inputs with an over-long number.\<close>

lemma digits1_zeros:
  "0 < n \<Longrightarrow> digits1 (replicate n 48 @ 32 # r) = Some (replicate n 48, 32 # r)"
proof -
  assume n: "0 < n"
  have d: "is_digit 48" "\<not> is_digit 32"
    by (simp_all add: is_digit_def digit_value_def nd_starts_def)
  have t: "takeWhile is_digit (replicate n 48 @ 32 # r) = replicate n 48"
    by (induction n) (use d in simp_all)
  have dr: "dropWhile is_digit (replicate n 48 @ 32 # r) = 32 # r"
    by (induction n) (use d in simp_all)
  show ?thesis unfolding digits1_def t dr using n by simp
qed

lemma long_hunk_header:
  "0 < n \<Longrightarrow> HUNK_HEADER_RE (str ''@@ -1 +'' @ replicate n 48 @ str '' @@'')
     = Some (str ''1'', None, replicate n 48, None)"
proof -
  assume n: "0 < n"
  have a: "str ''@@ -1 +'' @ replicate n 48 @ str '' @@''
      = 64 # 64 # 32 # 45 # 49 # 32 # 43 # (replicate n 48 @ 32 # [64, 64])"
    by (simp add: str_def)
  have b: "digits1 (49 # 32 # 43 # (replicate n 48 @ 32 # [64, 64]))
      = Some ([49], 32 # 43 # (replicate n 48 @ 32 # [64, 64]))"
    by (simp add: digits1_def is_digit_def digit_value_def nd_starts_def)
  show ?thesis unfolding a HUNK_HEADER_RE_def
    by (simp add: str_def b digits1_zeros [OF n] opt_count_def)
qed

lemma splitlines_from_line:
  "\<forall>c\<in>set xs. \<not> is_linebreak c \<Longrightarrow>
   splitlines_from cur (xs @ 10 # rest) = (cur @ xs) # splitlines_from [] rest"
proof (induction xs arbitrary: cur)
  case Nil
  show ?case by (cases rest) (simp_all add: is_linebreak_def)
next
  case (Cons x xs)
  obtain d r where e: "xs @ 10 # rest = d # r" by (cases "xs @ 10 # rest") auto
  have x: "\<not> is_linebreak x" "x \<noteq> 13" using Cons.prems by (auto simp: is_linebreak_def)
  have "splitlines_from cur ((x # xs) @ 10 # rest) = splitlines_from (cur @ [x]) (xs @ 10 # rest)"
    using x by (simp add: e)
  also have "\<dots> = ((cur @ [x]) @ xs) # splitlines_from [] rest"
    by (rule Cons.IH) (use Cons.prems in simp)
  finally show ?case by simp
qed

lemma splitlines_from_last:
  "\<forall>c\<in>set xs. \<not> is_linebreak c \<Longrightarrow> xs \<noteq> [] \<Longrightarrow> splitlines_from cur xs = [cur @ xs]"
proof (induction xs arbitrary: cur)
  case Nil
  then show ?case by simp
next
  case (Cons x xs)
  have x: "\<not> is_linebreak x" "x \<noteq> 13" using Cons.prems by (auto simp: is_linebreak_def)
  show ?case
  proof (cases xs)
    case Nil
    then show ?thesis using x by simp
  next
    case (Cons d r)
    have "splitlines_from cur (x # xs) = splitlines_from (cur @ [x]) xs"
      using x by (simp add: Cons)
    also have "\<dots> = [(cur @ [x]) @ xs]"
      by (rule Cons.IH) (use Cons.prems Cons in simp_all)
    finally show ?thesis by simp
  qed
qed

lemma splitlines_two:
  "\<forall>c\<in>set xs. \<not> is_linebreak c \<Longrightarrow> \<forall>c\<in>set ys. \<not> is_linebreak c \<Longrightarrow> ys \<noteq> [] \<Longrightarrow>
   splitlines (xs @ [10] @ ys) = [xs, ys]"
  by (simp add: splitlines_def splitlines_from_line splitlines_from_last)

lemma long_header_text:
  "splitlines (str ''diff --git a/x b/x'' @ [10] @ str ''@@ -1 +'' @ replicate n 48 @ str '' @@'')
     = [str ''diff --git a/x b/x'', str ''@@ -1 +'' @ replicate n 48 @ str '' @@'']"
  by (rule splitlines_two) (auto simp: str_def is_linebreak_def)

text \<open>
  Claim C5, as the code has it. The parser is a total function of its input. It raises
  \<open>ValueError\<close> exactly when a line of the input is a hunk header whose new start has more
  than 4300 digits, and otherwise returns its items. No added line has a negative line
  number; and every added line has a line number of at least 1 when the new start of every
  hunk header is at least 1 and no line in front of the first hunk header is turned into
  an added line.
\<close>

theorem parser_returns_and_line_numbers:
  "(case parse text of
      Inl e \<Rightarrow> e = ValueError \<and> list_ex overlong_hunk_header (splitlines text)
    | Inr items \<Rightarrow>
        \<not> list_ex overlong_hunk_header (splitlines text)
        \<and> (\<forall>n\<in>set (added_line_nos items). 0 \<le> n)
        \<and> ((\<forall>l\<in>set (splitlines text). hunk_start_at_least 1 l)
             \<and> (\<forall>l\<in>set (before_first_hunk (splitlines text)). \<not> emits_added l)
           \<longrightarrow> (\<forall>n\<in>set (added_line_nos items). 1 \<le> n)))"
proof (cases "list_ex overlong_hunk_header (splitlines text)")
  case True
  then have "parse text = Inl ValueError"
    unfolding parse_result parse_loop_raises by simp
  then show ?thesis using True by simp
next
  case False
  let ?items = "fst (parse_loop initial_state (splitlines text))"
  have p: "parse text = Inr ?items"
    unfolding parse_result parse_loop_raises using False by simp
  have 0: "\<forall>n\<in>set (added_line_nos ?items). 0 \<le> n"
    by (rule parse_loop_bound) (simp_all add: hunk_start_nonneg initial_state_def)
  have 1: "\<forall>n\<in>set (added_line_nos ?items). 1 \<le> n"
    if "\<forall>l\<in>set (splitlines text). hunk_start_at_least 1 l"
      "\<forall>l\<in>set (before_first_hunk (splitlines text)). \<not> emits_added l"
    by (rule parse_loop_bound) (fact that(1), rule disjI2, fact that(2),
        simp add: initial_state_def)
  show ?thesis unfolding p using False 0 1 by simp
qed

theorem parser_returns_and_line_numbers_witness:
  "parse (str ''diff --git a/x b/x'' @ [10] @ str ''@@ -0,0 +1,2 @@'' @ [10]
       @ str ''+a'' @ [10] @ str ''+b'')
     = Inr [DiffFile (str ''x'') None MODIFIED, DiffLine (str ''x'') 1 (str ''a'') ADDED,
            DiffLine (str ''x'') 2 (str ''b'') ADDED]
   \<and> (1::int) \<le> 1 \<and> (1::int) \<le> 2"
  using parser_returns_and_line_numbers
    [of "str ''diff --git a/x b/x'' @ [10] @ str ''@@ -0,0 +1,2 @@'' @ [10]
       @ str ''+a'' @ [10] @ str ''+b''"]
  by (simp add: parser_eval)

text \<open>
  Claim C5 as stated fails in three ways. An added line that follows a file header with
  no hunk header in between has the line number 0; so has an added line behind a hunk
  header whose new start is 0; and on a hunk header whose new start has 4301 digits the
  parser raises \<open>ValueError\<close>.
\<close>

theorem parser_line_no_zero:
  "parse (str ''diff --git a/x b/x'' @ [10] @ str ''+foo'')
     = Inr [DiffFile (str ''x'') None MODIFIED, DiffLine (str ''x'') 0 (str ''foo'') ADDED]
   \<and> parse (str ''diff --git a/x b/x'' @ [10] @ str ''@@ -1 +0,0 @@'' @ [10] @ str ''+foo'')
     = Inr [DiffFile (str ''x'') None MODIFIED, DiffLine (str ''x'') 0 (str ''foo'') ADDED]
   \<and> parse (str ''diff --git a/x b/x'' @ [10] @ str ''@@ -1 +'' @ replicate 4301 48 @ str '' @@'')
     = Inl ValueError"
proof (intro conjI)
  show "parse (str ''diff --git a/x b/x'' @ [10] @ str ''+foo'')
     = Inr [DiffFile (str ''x'') None MODIFIED, DiffLine (str ''x'') 0 (str ''foo'') ADDED]"
    by (simp add: parser_eval)
  show "parse (str ''diff --git a/x b/x'' @ [10] @ str ''@@ -1 +0,0 @@'' @ [10] @ str ''+foo'')
     = Inr [DiffFile (str ''x'') None MODIFIED, DiffLine (str ''x'') 0 (str ''foo'') ADDED]"
    by (simp add: parser_eval)
  define zs where "zs = replicate 4301 (48::nat)"
  have h: "HUNK_HEADER_RE (str ''@@ -1 +'' @ zs @ str '' @@'') = Some (str ''1'', None, zs, None)"
    unfolding zs_def by (rule long_hunk_header) simp
  have len: "length zs = 4301" unfolding zs_def by (rule length_replicate)
  have o: "overlong_hunk_header (str ''@@ -1 +'' @ zs @ str '' @@'')"
    unfolding overlong_hunk_header_def h by (simp add: max_str_digits_def len)
  have t: "splitlines (str ''diff --git a/x b/x'' @ [10] @ str ''@@ -1 +'' @ zs @ str '' @@'')
      = [str ''diff --git a/x b/x'', str ''@@ -1 +'' @ zs @ str '' @@'']"
    unfolding zs_def by (rule long_header_text)
  have "parse (str ''diff --git a/x b/x'' @ [10] @ str ''@@ -1 +'' @ zs @ str '' @@'')
      = Inl ValueError"
    unfolding parse_result parse_loop_raises t using o by simp
  then show "parse (str ''diff --git a/x b/x'' @ [10] @ str ''@@ -1 +'' @ replicate 4301 48
      @ str '' @@'') = Inl ValueError"
    unfolding zs_def .
qed

text \<open>
  Claim C6: exactly one leading BOM is to be removed. On the added line that starts with
  two BOMs and then \<open>a\<close> the parser removes both: the content is \<open>a\<close>, where the claim
  asks for a BOM followed by \<open>a\<close>.
\<close>

theorem strip_bom_removes_every_leading_bom:
  "parse (str ''diff --git a/x b/x'' @ [10] @ str ''@@ -0,0 +1 @@'' @ [10]
       @ str ''+'' @ [BOM, BOM] @ str ''a'')
     = Inr [DiffFile (str ''x'') None MODIFIED, DiffLine (str ''x'') 1 (str ''a'') ADDED]
   \<and> str ''a'' \<noteq> [BOM] @ str ''a''"
  by (simp add: parser_eval)

text \<open>One line that is neither a header nor an emitted added line.\<close>

lemma quiet_line:
  assumes "DIFF_HEADER_RE l = None" "HUNK_HEADER_RE l = None" "\<not> emits_added l"
    "current_file st = Some file"
  shows "parse_loop st (l # rest) =
     parse_loop (if startswith l (str '' '') then st\<lparr>line_no := line_no st + 1\<rparr> else st) rest"
proof (cases "startswith l (str '' '')")
  case True
  from context_line_only [OF True] assms(4) True show ?thesis
    by (simp add: content_line_def)
next
  case False
  show ?thesis
  proof (cases "FILE_HEADER_OLD l \<or> FILE_HEADER_NEW l \<or> SUBPROJECT_RE l \<or> NO_NEWLINE_RE l")
    case True
    then show ?thesis using assms(1,2) False by auto
  next
    case False2: False
    with assms(3) assms(1,2) have "\<not> startswith l (str ''+'')" by (simp add: emits_added_def)
    then show ?thesis using assms(1,2,4) False False2 by (simp add: content_line_def)
  qed
qed

lemma quiet_lines:
  assumes "current_file st = Some file"
    and "\<forall>l\<in>set mid. DIFF_HEADER_RE l = None \<and> HUNK_HEADER_RE l = None \<and> \<not> emits_added l"
  shows "parse_loop st (mid @ rest) =
     parse_loop (st\<lparr>line_no := line_no st + count_context mid\<rparr>) rest"
  using assms
proof (induction mid arbitrary: st)
  case Nil
  show ?case by (simp add: count_context_def)
next
  case (Cons l mid)
  have q: "DIFF_HEADER_RE l = None" "HUNK_HEADER_RE l = None" "\<not> emits_added l"
    using Cons.prems(2) by simp_all
  have rest: "\<forall>l\<in>set mid. DIFF_HEADER_RE l = None \<and> HUNK_HEADER_RE l = None \<and> \<not> emits_added l"
    using Cons.prems(2) by simp
  show ?case
  proof (cases "startswith l (str '' '')")
    case True
    have "parse_loop st ((l # mid) @ rest) = parse_loop (st\<lparr>line_no := line_no st + 1\<rparr>) (mid @ rest)"
      using quiet_line [OF q Cons.prems(1), of "mid @ rest"] True by simp
    also have "\<dots> = parse_loop (st\<lparr>line_no := line_no st + 1\<rparr>\<lparr>line_no := line_no (st\<lparr>line_no := line_no st + 1\<rparr>) + count_context mid\<rparr>) rest"
      by (rule Cons.IH) (simp add: Cons.prems(1), fact rest)
    finally show ?thesis using True by (simp add: count_context_def add.assoc)
  next
    case False
    have "parse_loop st ((l # mid) @ rest) = parse_loop st (mid @ rest)"
      using quiet_line [OF q Cons.prems(1), of "mid @ rest"] False by simp
    also have "\<dots> = parse_loop (st\<lparr>line_no := line_no st + count_context mid\<rparr>) rest"
      by (rule Cons.IH) (fact Cons.prems(1), fact rest)
    finally show ?thesis using False by (simp add: count_context_def)
  qed
qed

lemma added_line:
  assumes "emits_added l" "current_file st = Some file"
  shows "parse_loop st (l # rest) =
     parse_loop (st\<lparr>hunk_buffer := hunk_buffer st @ [DiffLine file (line_no st) (strip_bom (tl l)) ADDED],
       line_no := line_no st + 1\<rparr>) rest"
  using assms by (simp add: emits_added_def content_line_def)

text \<open>The buffer is yielded in front of everything that the loop yields later.\<close>

lemma parse_loop_buffer:
  "parse_loop st ls = emit (hunk_buffer st) (parse_loop (st\<lparr>hunk_buffer := []\<rparr>) ls)"
proof (induction "length ls" arbitrary: st ls rule: less_induct)
  case less
  show ?case
  proof (cases ls)
    case Nil
    show ?thesis unfolding Nil by (simp add: emit_def)
  next
    case (Cons l rest)
    have IH: "parse_loop st' rest = emit (hunk_buffer st') (parse_loop (st'\<lparr>hunk_buffer := []\<rparr>) rest)"
      for st'
      by (rule less.hyps) (simp add: Cons)
    show ?thesis
    proof (cases "DIFF_HEADER_RE l")
      case (Some g)
      obtain g1 g2 where g: "g = (g1, g2)" by (cases g)
      have "enter_file (st\<lparr>hunk_buffer := []\<rparr>) g1 g2 = enter_file st g1 g2"
        by (simp add: enter_file_def)
      then show ?thesis unfolding Cons using Some g by (simp add: emit_Nil split: prod.split)
    next
      case None
      note nd = None
      show ?thesis
      proof (cases "HUNK_HEADER_RE l")
        case (Some h)
        obtain a b c d where h: "h = (a, b, c, d)" by (cases h)
        from hunk_header_only(1-3) [OF Some] Some h show ?thesis
          unfolding Cons by (cases "py_int c") (simp_all add: emit_Nil)
      next
        case None
        note nh = None
        show ?thesis
        proof (cases "current_file st")
          case None
          then show ?thesis unfolding Cons using nd nh IH [of st] by simp
        next
          case (Some f)
          have 1: "parse_loop (content_line st f l) rest =
              emit (hunk_buffer st) (parse_loop (content_line (st\<lparr>hunk_buffer := []\<rparr>) f l) rest)"
            using IH [of "content_line st f l"] IH [of "content_line (st\<lparr>hunk_buffer := []\<rparr>) f l"]
            by (simp add: content_line_def emit_emit emit_Nil split: if_splits)
          show ?thesis unfolding Cons using nd nh Some IH [of st] 1 by simp
        qed
      qed
    qed
  qed
qed

text \<open>
  Claim C7, as the code has it. When the loop, inside a file block, reaches a hunk header
  whose new start \<open>c\<close> has at most 4300 digits, and the lines \<open>mid\<close> that follow hold no
  header and no added line, the next added line is emitted with the line number \<open>c\<close> plus
  the number of context lines in \<open>mid\<close>, and the counter then stands one higher: it has
  moved once for each context line and once for the added line, and not for the removed
  lines or any other line of \<open>mid\<close>.
\<close>

theorem hunk_first_added_line:
  assumes "HUNK_HEADER_RE hdr = Some (a, b, c, d)"
    and "length c \<le> max_str_digits"
    and "current_file st = Some file"
    and "\<forall>l\<in>set mid. DIFF_HEADER_RE l = None \<and> HUNK_HEADER_RE l = None \<and> \<not> emits_added l"
    and "emits_added new_line"
  shows "parse_loop st (hdr # mid @ new_line # post) =
     emit (hunk_buffer st @
         [DiffLine file (digits_value c + count_context mid) (strip_bom (tl new_line)) ADDED])
       (parse_loop
         (st\<lparr>hunk_buffer := [], line_no := digits_value c + count_context mid + 1\<rparr>) post)"
proof -
  let ?st1 = "st\<lparr>hunk_buffer := [], line_no := digits_value c\<rparr>"
  let ?st2 = "?st1\<lparr>line_no := line_no ?st1 + count_context mid\<rparr>"
  let ?new = "DiffLine file (digits_value c + count_context mid) (strip_bom (tl new_line)) ADDED"
  have cf: "current_file ?st1 = Some file" "current_file ?st2 = Some file"
    using assms(3) by simp_all
  have "parse_loop st (hdr # mid @ new_line # post) =
      emit (hunk_buffer st) (parse_loop ?st1 (mid @ new_line # post))"
    using hunk_header_only(1-3) [OF assms(1)] assms(1,2) by (simp add: py_int_def)
  also have "parse_loop ?st1 (mid @ new_line # post) = parse_loop ?st2 (new_line # post)"
    by (rule quiet_lines [OF cf(1) assms(4)])
  also have "parse_loop ?st2 (new_line # post) =
      parse_loop (?st2\<lparr>hunk_buffer := hunk_buffer ?st2 @
         [DiffLine file (line_no ?st2) (strip_bom (tl new_line)) ADDED], line_no := line_no ?st2 + 1\<rparr>) post"
    by (rule added_line [OF assms(5) cf(2)])
  also have "\<dots> = emit [?new]
      (parse_loop (st\<lparr>hunk_buffer := [], line_no := digits_value c + count_context mid + 1\<rparr>) post)"
    (is "parse_loop ?st3 post = _")
  proof -
    have b: "hunk_buffer ?st3 = [?new]"
      by simp
    have e: "?st3\<lparr>hunk_buffer := []\<rparr> =
        st\<lparr>hunk_buffer := [], line_no := digits_value c + count_context mid + 1\<rparr>"
      by (cases st) simp
    show ?thesis by (subst parse_loop_buffer) (simp only: b e)
  qed
  finally show ?thesis by (simp add: emit_emit)
qed

theorem hunk_first_added_line_witness:
  "parse_loop (initial_state\<lparr>current_file := Some (str ''x'')\<rparr>)
       [str ''@@ -1,2 +5,3 @@'', str '' ctx'', str ''-old'', str ''+added'']
     = ([DiffLine (str ''x'') 6 (str ''added'') ADDED], None)"
  using hunk_first_added_line [of "str ''@@ -1,2 +5,3 @@''" "str ''1''" "Some (str ''2'')"
      "str ''5''" "Some (str ''3'')" "initial_state\<lparr>current_file := Some (str ''x'')\<rparr>"
      "str ''x''" "[str '' ctx'', str ''-old'']" "str ''+added''" "[]"]
  by (simp add: parser_eval emits_added_def count_context_def)

text \<open>
  Claim C7 as stated fails in three ways. After the header \<open>@@ -1,2 +5,3 @@\<close> and one
  context line, the first added line has line number 6, not 5. After a hunk header whose
  new start has 4301 digits no line is emitted: the parser raises \<open>ValueError\<close>. And
  outside a file block (no \<open>diff --git\<close> line was read) the added line behind a hunk
  header is not emitted at all.
\<close>

theorem first_added_line_after_context:
  "HUNK_HEADER_RE (str ''@@ -1,2 +5,3 @@'')
     = Some (str ''1'', Some (str ''2''), str ''5'', Some (str ''3''))
   \<and> py_int (str ''5'') = Inr 5
   \<and> parse (str ''diff --git a/x b/x'' @ [10] @ str ''@@ -1,2 +5,3 @@'' @ [10]
        @ str '' ctx'' @ [10] @ str ''+added'')
     = Inr [DiffFile (str ''x'') None MODIFIED, DiffLine (str ''x'') 6 (str ''added'') ADDED]
   \<and> parse_loop (initial_state\<lparr>current_file := Some (str ''x'')\<rparr>)
        [str ''@@ -1 +'' @ replicate 4301 48 @ str '' @@'', str ''+added'']
     = ([], Some ValueError)
   \<and> parse (str ''@@ -1,2 +5,3 @@'' @ [10] @ str ''+added'') = Inr []"
proof (intro conjI)
  show "HUNK_HEADER_RE (str ''@@ -1,2 +5,3 @@'')
     = Some (str ''1'', Some (str ''2''), str ''5'', Some (str ''3''))"
    by (simp add: parser_eval)
  show "py_int (str ''5'') = Inr 5"
    by (simp add: parser_eval)
  show "parse (str ''diff --git a/x b/x'' @ [10] @ str ''@@ -1,2 +5,3 @@'' @ [10]
        @ str '' ctx'' @ [10] @ str ''+added'')
     = Inr [DiffFile (str ''x'') None MODIFIED, DiffLine (str ''x'') 6 (str ''added'') ADDED]"
    by (simp add: parser_eval)
  show "parse (str ''@@ -1,2 +5,3 @@'' @ [10] @ str ''+added'') = Inr []"
    by (simp add: parser_eval)
  define zs where "zs = replicate 4301 (48::nat)"
  define hdr where "hdr = str ''@@ -1 +'' @ zs @ str '' @@''"
  have h: "HUNK_HEADER_RE hdr = Some (str ''1'', None, zs, None)"
    unfolding hdr_def zs_def by (rule long_hunk_header) simp
  have len: "length zs = 4301" unfolding zs_def by (rule length_replicate)
  have "parse_loop (initial_state\<lparr>current_file := Some (str ''x'')\<rparr>) [hdr, str ''+added'']
      = ([], Some ValueError)"
    using hunk_header_only(1-3) [OF h] h
    by (simp add: py_int_def max_str_digits_def len emit_def initial_state_def)
  then show "parse_loop (initial_state\<lparr>current_file := Some (str ''x'')\<rparr>)
        [str ''@@ -1 +'' @ replicate 4301 48 @ str '' @@'', str ''+added'']
     = ([], Some ValueError)"
    unfolding hdr_def zs_def .
qed

text \<open>
  Claim C8: after a line \<open>Binary files ... differ\<close> the parser is to skip the remaining
  lines of the block and to emit no added line for the file. It reports the file as
  skipped and then reads the lines behind the marker as content: the added line among
  them is emitted for the binary file.
\<close>

theorem binary_block_added_line:
  "parse (str ''diff --git a/i b/i'' @ [10] @ str ''Binary files a/i and b/i differ'' @ [10]
        @ str ''@@ -0,0 +1 @@'' @ [10] @ str ''+secret'')
     = Inr [FileSkipped (str ''i'') (str ''binary''),
            DiffLine (str ''i'') 1 (str ''secret'') ADDED]"
  by (simp add: parser_eval)

section \<open>Properties of the aggregator\<close>

text \<open>
  Claim C2. In the output of \<open>deduplicate\<close> the severity of a finding is the highest of the
  severities of the raw findings with its key, and \<open>is_blocking\<close> holds exactly when that
  merged severity is at or above \<open>fail_on\<close>. The second part fails: \<open>is_blocking\<close> is
  computed when the key is first seen and is not computed again when a later raw finding
  lifts the severity. Here a rule with the id \<open>HIGH_ENTROPY_STRING\<close> and severity low matches
  a line on which the entropy scan (severity medium) reports too, and \<open>fail_on\<close> is medium:
  the merged finding has severity medium, which is at or above \<open>fail_on\<close>, and is not
  blocking.
\<close>

theorem deduplicate_stale_is_blocking:
  "map (\<lambda>f. (f_severity f, f_detection_methods f, f_is_blocking f))
     (deduplicate
        [\<lparr>raw_rule_id = str ''HIGH_ENTROPY_STRING'', raw_rule_name = str ''Token'',
          raw_severity = str ''low'', raw_category = str ''secret'', raw_file = str ''a.py'',
          raw_line_no = 1, raw_matched_value = Some (str ''q8Zr2LxW''),
          raw_description = str ''token'', raw_detection_method = str ''regex'',
          raw_entropy_value = None, raw_commit = None\<rparr>,
         \<lparr>raw_rule_id = str ''HIGH_ENTROPY_STRING'', raw_rule_name = str ''High-Entropy String'',
          raw_severity = str ''medium'', raw_category = str ''sensitive'', raw_file = str ''a.py'',
          raw_line_no = 1, raw_matched_value = Some (str ''q8Zr2LxW''),
          raw_description = str ''Shannon entropy 3.00 bits'',
          raw_detection_method = str ''entropy'', raw_entropy_value = Some 3,
          raw_commit = None\<rparr>]
        (str ''medium''))
   = [(str ''medium'', [str ''regex'', str ''entropy''], False)]
   \<and> severity_at_or_above (str ''medium'') (str ''medium'')"
  by (simp add: deduplicate_def key_of_def new_finding_def merge_raw_def
      severity_at_or_above_def severity_rank_def SEVERITY_ORDER_def str_def)










section \<open>Properties of the suppression checker\<close>

lemmas suppress_eval = register_lines_def parse_inline_suppression_def is_pure_comment_def
  suppress_after_hash_def scope_char_def is_space_def strip_def is_suppressed_def str_def
  own_entry_def next_entry_def

lemma next_entry_None_iff:
  "(next_entry c \<noteq> None) = (fst (parse_inline_suppression c) \<and> is_pure_comment c)"
  by (auto simp add: next_entry_def)

lemma register_loop_step:
  "register_loop m ps pc ((n, c) # rest) =
     register_loop (step_map m ps pc n c) (next_entry c) (next_entry c \<noteq> None) rest"
proof (cases "parse_inline_suppression c")
  case (Pair a b)
  show ?thesis
  proof (cases a)
    case True
    show ?thesis unfolding next_entry_None_iff using Pair True
      by (simp add: step_map_def own_entry_def next_entry_def)
  next
    case False
    show ?thesis unfolding next_entry_None_iff using Pair False
      by (simp add: step_map_def own_entry_def next_entry_def inherited_def split: option.splits)
  qed
qed

lemma inherited_next: "inherited (next_entry c) (next_entry c \<noteq> None) = next_entry c"
  by (simp add: inherited_def split: option.splits)

text \<open>The loop on a list of lines with one more line at its end.\<close>

lemma register_loop_snoc:
  "register_loop m ps pc (xs @ [(n, c)]) =
     step_map (register_loop m ps pc xs)
       (if xs = [] then ps else next_entry (snd (last xs)))
       (if xs = [] then pc else next_entry (snd (last xs)) \<noteq> None) n c"
proof (induction xs arbitrary: m ps pc)
  case Nil
  show ?case unfolding append_Nil register_loop_step by simp
next
  case (Cons x xs)
  obtain n' c' where x: "x = (n', c')" by (cases x)
  have "register_loop m ps pc ((x # xs) @ [(n, c)]) =
      register_loop (step_map m ps pc n' c') (next_entry c') (next_entry c' \<noteq> None)
        (xs @ [(n, c)])"
    unfolding x by (simp only: append_Cons register_loop_step)
  also have "\<dots> = step_map
       (register_loop (step_map m ps pc n' c') (next_entry c') (next_entry c' \<noteq> None) xs)
       (if xs = [] then next_entry c' else next_entry (snd (last xs)))
       (if xs = [] then next_entry c' \<noteq> None else next_entry (snd (last xs)) \<noteq> None) n c"
    by (rule Cons.IH)
  also have "register_loop (step_map m ps pc n' c') (next_entry c') (next_entry c' \<noteq> None) xs
      = register_loop m ps pc (x # xs)"
    unfolding x by (simp only: register_loop_step)
  finally show ?case unfolding x by (cases "xs = []") simp_all
qed

lemma register_lines_snoc:
  "register_lines (xs @ [(n, c)]) =
     (case entry_write (xs @ [(n, c)]) (length xs) of
        Some e \<Rightarrow> (register_lines xs)(n \<mapsto> e)
      | None \<Rightarrow> register_lines xs)"
proof -
  have w: "entry_write (xs @ [(n, c)]) (length xs) =
      (case own_entry c of
         Some e \<Rightarrow> Some e
       | None \<Rightarrow> if xs = [] then None else next_entry (snd (last xs)))"
    by (cases "xs = []") (simp_all add: entry_write_def nth_append last_conv_nth split: option.splits)
  have i: "inherited (if xs = [] then None else next_entry (snd (last xs)))
       (if xs = [] then False else next_entry (snd (last xs)) \<noteq> None)
      = (if xs = [] then None else next_entry (snd (last xs)))"
    using inherited_next [of "snd (last xs)"] by (cases "xs = []") (simp_all add: inherited_def)
  show ?thesis
    unfolding register_lines_def register_loop_snoc step_map_def i w
    by (simp split: option.splits)
qed

lemma entry_write_snoc: "k < length xs \<Longrightarrow> entry_write (xs @ [x]) k = entry_write xs k"
  by (cases k) (simp_all add: entry_write_def nth_append split: option.splits)

lemma last_write_snoc:
  "last_write (xs @ [(m, c)]) n =
     (if m = n \<and> entry_write (xs @ [(m, c)]) (length xs) \<noteq> None
      then entry_write (xs @ [(m, c)]) (length xs) else last_write xs n)"
proof -
  let ?P' = "\<lambda>k. fst ((xs @ [(m, c)]) ! k) = n \<and> entry_write (xs @ [(m, c)]) k \<noteq> None"
  let ?P = "\<lambda>k. fst (xs ! k) = n \<and> entry_write xs k \<noteq> None"
  have f: "filter ?P' (rev [0..<length xs]) = filter ?P (rev [0..<length xs])"
    by (rule filter_cong) (simp_all add: nth_append entry_write_snoc)
  have h: "entry_write (xs @ [(m, c)]) k = entry_write xs k"
    if "filter ?P (rev [0..<length xs]) = k # ks" for k ks
  proof -
    have "k \<in> set (filter ?P (rev [0..<length xs]))" unfolding that by simp
    then have "k < length xs" by simp
    then show ?thesis by (rule entry_write_snoc)
  qed
  have r: "rev [0..<length (xs @ [(m, c)])] = length xs # rev [0..<length xs]" by simp
  show ?thesis
  proof (cases "m = n \<and> entry_write (xs @ [(m, c)]) (length xs) \<noteq> None")
    case True
    then have "filter ?P' (length xs # rev [0..<length xs])
        = length xs # filter ?P' (rev [0..<length xs])"
      by auto
    then show ?thesis unfolding last_write_def r using True by auto
  next
    case False
    have "filter ?P' (length xs # rev [0..<length xs]) = filter ?P (rev [0..<length xs])"
      using False f by auto
    then show ?thesis unfolding last_write_def r using False h
      by (auto split: list.splits)
  qed
qed

text \<open>
  Claim C9, as the code has it. The loop of \<open>register_lines\<close> writes for the \<open>k\<close>-th entry
  of the list its own marker when it carries one, and otherwise the marker of the entry
  just before it when that entry carries a marker and is a pure comment
  (\<open>entry_write\<close>); an entry further back is never consulted. It writes under the line
  number of the entry, so what \<open>is_suppressed\<close> finds for a line number is the last
  thing written for an entry with that number (\<open>last_write\<close>).
\<close>

theorem register_lines_last_write: "register_lines lines n = last_write lines n"
proof (induction lines rule: rev_induct)
  case Nil
  show ?case by (simp add: register_lines_def last_write_def)
next
  case (snoc x xs)
  obtain m c where x: "x = (m, c)" by (cases x)
  show ?case unfolding x register_lines_snoc last_write_snoc
    using snoc.IH by (auto split: option.splits)
qed

theorem register_lines_last_write_witness:
  "register_lines [(7, str ''# nosec''), (9, str ''k = 1''), (12, str ''j = 2'')] 9
     = Some (True, None)
   \<and> last_write [(7, str ''# nosec''), (9, str ''k = 1''), (12, str ''j = 2'')] 12 = None"
  using register_lines_last_write
      [of "[(7, str ''# nosec''), (9, str ''k = 1''), (12, str ''j = 2'')]" 9]
    register_lines_last_write
      [of "[(7, str ''# nosec''), (9, str ''k = 1''), (12, str ''j = 2'')]" 12]
  by (simp add: suppress_eval)

text \<open>
  Claim C9, as the specification has it, fails in two ways. When the entry after the
  comment carries a marker of its own, the marker of the comment does not reach it: the
  first line suppresses every rule and is a pure comment, and the entry after it is
  suppressed for rule \<open>A\<close> only, so a finding of rule \<open>B\<close> on it is kept. And the marker
  reaches a later entry that has the line number of the comment (two hunks of one file
  can both start at line 1): the third entry below carries no marker, the entry before
  it carries none, and it is suppressed.
\<close>

theorem next_entry_with_own_marker:
  "parse_inline_suppression (str ''# gitsafe-ignore'') = (True, None)
   \<and> is_pure_comment (str ''# gitsafe-ignore'')
   \<and> is_suppressed
        [str ''a.py'' \<mapsto> register_lines
           [(1, str ''# gitsafe-ignore''), (2, str ''k = 1  # nosec[A]'')]]
        (str ''a.py'') 2 (str ''B'') = None
   \<and> own_entry (str ''SECRET'') = None
   \<and> next_entry (str ''a = 1'') = None
   \<and> is_suppressed
        [str ''a.py'' \<mapsto> register_lines
           [(1, str ''# nosec''), (2, str ''a = 1''), (1, str ''SECRET'')]]
        (str ''a.py'') 1 (str ''B'')
      = Some \<lparr>sup_rule_id = str ''B'', sup_file = str ''a.py'', sup_line_no = 1,
          sup_reason = str ''inline'', sup_source = str ''#gitsafe-ignore''\<rparr>"
  by (simp add: suppress_eval)

section \<open>Properties of the scan engine\<close>




















lemmas engine_eval = scan_def scan_pass_def example_library_def content_rules_def
  file_rules_def enabled_rules_def is_file_rule_def is_entropy_rule_def check_rule_def
  check_file_rule_def compiled_pattern_def compiled_allowlist_def match_rule_allowlist_def
  match_global_allowlist_def any_search_def is_ignored_def scan_line_def circuit_breaker_def
  build_checker_def file_lines_def List.map_filter_def initial_scan_state_def
  on_internal_error_def deduplicate_def key_of_def new_finding_def merge_raw_def
  severity_at_or_above_def severity_rank_def SEVERITY_ORDER_def decimal03_def finding_key_def
  decimal.simps [of 0] decimal.simps [of 1] decimal.simps [of "Suc 0"] decimal.simps [of 2]

lemmas example_eval = example_config_def example_rule_def empty_ignorefile_def

text \<open>
  Claim C1, as the code has it. \<open>scan\<close> raises a \<open>ScanError\<close> exactly when the main pass
  raises an exception, and its message then is
  \<open>Internal scanner error after N findings. Secrets have been scrubbed from this error.\<close>
  with the number \<open>N\<close> of the raw findings recorded until then: the message is made of
  that number and of nothing else of the input. The handler leaves the list of the raw
  findings empty.
\<close>

theorem scan_error_message:
  "(scan lib diff_text config registry ign = Inl (ScanError msg))
     = (\<exists>ga items e st.
          compile_list lib True (allowlist_patterns config) = Inr ga
          \<and> parse diff_text = Inr items
          \<and> scan_pass lib config registry ign ga items = Inl (e, st)
          \<and> msg = str ''Internal scanner error after '' @ decimal (length (raw_findings st))
                @ str '' findings. Secrets have been scrubbed from this error.'')
   \<and> raw_findings (fst (on_internal_error st0)) = []"
  by (auto simp: scan_def on_internal_error_def Let_def str_def split: sum.splits prod.splits)

theorem scan_error_message_witness:
  "scan example_library
       (str ''diff --git a/a.py b/a.py'' @ [10] @ str ''@@ -0,0 +1 @@'' @ [10] @ str ''+x = 1'')
       example_config [example_rule ''R1'' ''high'' ''(''] empty_ignorefile
     = Inl (ScanError
         (str ''Internal scanner error after 0 findings. Secrets have been scrubbed from this error.''))"
  using scan_error_message [of example_library
      "str ''diff --git a/a.py b/a.py'' @ [10] @ str ''@@ -0,0 +1 @@'' @ [10] @ str ''+x = 1''"
      example_config "[example_rule ''R1'' ''high'' ''('']" empty_ignorefile
      "str ''Internal scanner error after 0 findings. Secrets have been scrubbed from this error.''"
      initial_scan_state]
  by (simp add: engine_eval parser_eval suppress_eval example_eval)

text \<open>
  Claim C1 as stated fails. The rule \<open>R1\<close> matches \<open>error\<close> on the added line and the
  pattern of the rule \<open>R2\<close> does not compile, so the pass raises with one raw finding
  whose matched value is \<open>error\<close>. The message is not of the form that the claim gives,
  and the matched value is a substring of it.
\<close>

theorem scan_error_message_text:
  "scan example_library
       (str ''diff --git a/a.py b/a.py'' @ [10] @ str ''@@ -0,0 +1 @@'' @ [10]
          @ str ''+an error here'')
       example_config [example_rule ''R1'' ''high'' ''error'', example_rule ''R2'' ''high'' ''('']
       empty_ignorefile
     = Inl (ScanError
         (str ''Internal scanner error after 1 findings. Secrets have been scrubbed from this error.''))
   \<and> str ''Internal scanner error after 1 findings. Secrets have been scrubbed from this error.''
       \<noteq> str ''Internal scanner error after 1 findings; secrets scrubbed.''
   \<and> map_sum (\<lambda>raised. map raw_matched_value (raw_findings (snd raised))) (\<lambda>st. ())
        (scan_pass example_library example_config
           [example_rule ''R1'' ''high'' ''error'', example_rule ''R2'' ''high'' ''('']
           empty_ignorefile []
           [DiffFile (str ''a.py'') None MODIFIED,
            DiffLine (str ''a.py'') 1 (str ''an error here'') ADDED])
     = Inl [Some (str ''error'')]
   \<and> contains
        (str ''Internal scanner error after 1 findings. Secrets have been scrubbed from this error.'')
        (str ''error'')"
  by (simp add: engine_eval parser_eval suppress_eval example_eval)







text \<open>
  Claim C10: a path that the scan marks as ignored contributes nothing but an entry of
  \<open>skipped_files\<close>. The check against the ignore globs is made when the \<open>DiffFile\<close> item of
  a path arrives, and the lines of a path are skipped only from then on. For \<open>p.bin\<close>,
  which the configuration ignores, the parser first yields \<open>FileSkipped\<close> (its first
  block holds a binary marker) and the added line behind the marker: the line is
  scanned, the rule reports on it, and the path is counted as scanned. The second block
  then marks the path as ignored.
\<close>

theorem ignored_path_with_finding:
  "parse (str ''diff --git a/p.bin b/p.bin'' @ [10]
        @ str ''Binary files a/p.bin and b/p.bin differ'' @ [10] @ str ''+key1'' @ [10]
        @ str ''diff --git a/p.bin b/p.bin'' @ [10] @ str ''@@ -0,0 +1 @@'' @ [10] @ str ''+x'')
     = Inr [FileSkipped (str ''p.bin'') (str ''binary''),
            DiffLine (str ''p.bin'') 0 (str ''key1'') ADDED,
            DiffFile (str ''p.bin'') None MODIFIED,
            DiffLine (str ''p.bin'') 1 (str ''x'') ADDED]
   \<and> map_sum id ignored_files_set
        (scan_pass example_library (example_config\<lparr>ignore_files := [str ''p.bin'']\<rparr>)
           [example_rule ''R1'' ''critical'' ''key1''] empty_ignorefile []
           [FileSkipped (str ''p.bin'') (str ''binary''),
            DiffLine (str ''p.bin'') 0 (str ''key1'') ADDED,
            DiffFile (str ''p.bin'') None MODIFIED,
            DiffLine (str ''p.bin'') 1 (str ''x'') ADDED])
     = Inr {str ''p.bin''}
   \<and> map_sum id (\<lambda>r. (map finding_key (findings r), res_skipped_files r, scanned_files r))
        (scan example_library
           (str ''diff --git a/p.bin b/p.bin'' @ [10]
              @ str ''Binary files a/p.bin and b/p.bin differ'' @ [10] @ str ''+key1'' @ [10]
              @ str ''diff --git a/p.bin b/p.bin'' @ [10] @ str ''@@ -0,0 +1 @@'' @ [10]
              @ str ''+x'')
           (example_config\<lparr>ignore_files := [str ''p.bin'']\<rparr>)
           [example_rule ''R1'' ''critical'' ''key1''] empty_ignorefile)
     = Inr ([(str ''R1'', str ''p.bin'', 0)],
            [str ''p.bin (binary)'', str ''p.bin (ignored)''], 1)"
  by (simp add: engine_eval parser_eval suppress_eval example_eval)

end
